theory Spec2Isabelle
  imports Main
begin

section \<open>Plan-limit enforcement of OctoBot (src/octobot/limits.py)\<close>

text \<open>
  The three limiters and the orchestrator of \<^verbatim>\<open>limits.py\<close> as HOL functions.
  The Python functions mutate the configuration and the logger in place; here each
  function takes the state and returns it updated. An exception is a value of type
  \<open>error\<close>; a limiter returns the state as it was when the exception was raised, so
  that the partial mutation the orchestrator's \<^verbatim>\<open>except\<close> leaves behind is visible.
\<close>

subsection \<open>Strings: f-string formatting and join\<close>

fun str_nat :: "nat \<Rightarrow> string" where
  "str_nat n =
     (if n < 10 then [''0123456789'' ! n]
      else str_nat (n div 10) @ [''0123456789'' ! (n mod 10)])"

declare str_nat.simps [simp del]

definition str_int :: "int \<Rightarrow> string" where
  \<comment> \<open>\<^verbatim>\<open>f"{limit}"\<close> for a Python int\<close>
  "str_int i = (if i < 0 then ''-'' @ str_nat (nat (- i)) else str_nat (nat i))"

fun join :: "string \<Rightarrow> string list \<Rightarrow> string" where
  \<comment> \<open>\<^verbatim>\<open>sep.join(xs)\<close>\<close>
  "join sep [] = []"
| "join sep [x] = x"
| "join sep (x # y # ys) = x @ sep @ join sep (y # ys)"

subsection \<open>Errors and the logger\<close>

datatype error =
  KeyError string
| CollaboratorError string

datatype log_record =
  LogError string
| LogException error

type_synonym logger = "log_record list"

subsection \<open>The configuration tree\<close>

text \<open>
  A Python dict keeps its insertion order and the limiters iterate \<^verbatim>\<open>.items()\<close>, so a
  mapping is the list of its items. A key that may be absent is an \<open>option\<close> field:
  \<^verbatim>\<open>d.get(k, default)\<close> reads \<open>None\<close> as the default, \<^verbatim>\<open>d[k]\<close> raises KeyError on it.
  An enabled flag is a boolean, a pair is a string, and two keys of a mapping never
  share their entry.
\<close>

record exchange_config =
  exchange_enabled :: "bool option"
  exchange_type :: "string option"

record crypto_currency_data =
  currency_enabled :: "bool option"
  pairs :: "string list option"

record dict_config =
  exchanges :: "(string \<times> exchange_config) list option"
  crypto_currencies :: "(string \<times> crypto_currency_data) list option"

definition CONFIG_EXCHANGES :: string where
  "CONFIG_EXCHANGES = ''exchanges''"

definition CONFIG_CRYPTO_CURRENCIES :: string where
  "CONFIG_CRYPTO_CURRENCIES = ''crypto-currencies''"

definition CONFIG_CRYPTO_PAIRS :: string where
  "CONFIG_CRYPTO_PAIRS = ''pairs''"

definition CONFIG_EXCHANGE_SPOT :: string where
  "CONFIG_EXCHANGE_SPOT = ''spot''"

definition CONFIG_SYMBOLS_WILDCARD :: "string list" where
  "CONFIG_SYMBOLS_WILDCARD = [''*'']"

definition get_enabled :: "bool option \<Rightarrow> bool" where
  \<comment> \<open>\<^verbatim>\<open>config.get(CONFIG_ENABLED_OPTION, True)\<close>\<close>
  "get_enabled flag = (case flag of None \<Rightarrow> True | Some b \<Rightarrow> b)"

subsection \<open>The exchange limiter\<close>

definition exchange_key :: "string \<Rightarrow> exchange_config \<Rightarrow> string" where
  \<comment> \<open>\<^verbatim>\<open>f"{exchange}[{config.get(CONFIG_EXCHANGE_TYPE, CONFIG_EXCHANGE_SPOT)}]"\<close>\<close>
  "exchange_key exchange config =
     exchange @ ''['' @
     (case exchange_type config of None \<Rightarrow> CONFIG_EXCHANGE_SPOT | Some t \<Rightarrow> t) @ '']''"

text \<open>The loop of lines 32-38: the items, the list \<^verbatim>\<open>enabled_exchanges\<close>, the logger.\<close>

fun exchanges_loop ::
  "int \<Rightarrow> (string \<times> exchange_config) list \<Rightarrow> string list \<Rightarrow> logger \<Rightarrow>
   (string \<times> exchange_config) list \<times> string list \<times> logger" where
  "exchanges_loop limit [] enabled_exchanges logger = ([], enabled_exchanges, logger)"
| "exchanges_loop limit ((exchange, config) # rest) enabled_exchanges logger =
     (if get_enabled (exchange_enabled config) then
        (if int (length enabled_exchanges) < limit then
           (case exchanges_loop limit rest (enabled_exchanges @ [exchange]) logger of
              (rest', result) \<Rightarrow> ((exchange, config) # rest', result))
         else
           (case exchanges_loop limit rest enabled_exchanges
                   (logger @ [LogError (''Disabled '' @ exchange)]) of
              (rest', result) \<Rightarrow>
                ((exchange, config\<lparr>exchange_enabled := Some False\<rparr>) # rest', result)))
      else
        (case exchanges_loop limit rest enabled_exchanges logger of
           (rest', result) \<Rightarrow> ((exchange, config) # rest', result)))"

definition exchanges_message :: "int \<Rightarrow> string list \<Rightarrow> string" where
  "exchanges_message limit enabled_exchanges =
     ''Reached maximum allowed simultaneous exchanges for this plan, maximum is '' @
     str_int limit @ ''. '' @
     ''Your OctoBot will trade on the following exchanges: '' @
     join '', '' enabled_exchanges"

definition apply_exchanges_limits ::
  "dict_config \<Rightarrow> logger \<Rightarrow> int \<Rightarrow> (error + string) \<times> dict_config \<times> logger" where
  "apply_exchanges_limits dict_config logger limit =
     (case exchanges dict_config of
        None \<Rightarrow> (Inl (KeyError CONFIG_EXCHANGES), dict_config, logger)
      | Some items \<Rightarrow>
          (let exchanges_keys =
                 map (\<lambda>(exchange, config). exchange_key exchange config)
                   (filter (\<lambda>(exchange, config). get_enabled (exchange_enabled config)) items)
           in if int (length exchanges_keys) > limit then
                (case exchanges_loop limit items [] logger of
                   (items', enabled_exchanges, logger') \<Rightarrow>
                     (Inr (exchanges_message limit enabled_exchanges),
                      dict_config\<lparr>exchanges := Some items'\<rparr>, logger'))
              else (Inr '''', dict_config, logger)))"

subsection \<open>The symbol limiter\<close>

text \<open>The local variables of \<^verbatim>\<open>_apply_symbols_limits\<close>, and the logger it writes to.\<close>

record symbols_vars =
  enabled_symbols :: "string list"
  has_disabled_symbols :: bool
  message :: string
  symbols_logger :: logger

definition is_wildcard :: "string \<Rightarrow> bool" where
  \<comment> \<open>\<^verbatim>\<open>symbol == CONFIG_SYMBOLS_WILDCARD[0] or symbol == CONFIG_SYMBOLS_WILDCARD\<close>: a pair is
      a str, which is never equal to the list, so the second comparison is False\<close>
  "is_wildcard symbol = (symbol = CONFIG_SYMBOLS_WILDCARD ! 0 \<or> False)"

text \<open>
  The inner loop of lines 56-69 over the pairs of one currency. It returns the
  currency's data (disabled when the wildcard is met, where the loop breaks), the list
  \<^verbatim>\<open>updated_symbols\<close> and the local variables.
\<close>

fun scan_symbols ::
  "int \<Rightarrow> string \<Rightarrow> string list \<Rightarrow> crypto_currency_data \<Rightarrow> string list \<Rightarrow> symbols_vars \<Rightarrow>
   crypto_currency_data \<times> string list \<times> symbols_vars" where
  "scan_symbols limit currency [] data updated_symbols v = (data, updated_symbols, v)"
| "scan_symbols limit currency (symbol # rest) data updated_symbols v =
     (if is_wildcard symbol then
        (data\<lparr>currency_enabled := Some False\<rparr>, updated_symbols,
         v\<lparr>message := ''Disabled wildcard symbol for '' @ currency @ ''. '',
           has_disabled_symbols := True\<rparr>)
      else if int (length (enabled_symbols v)) < limit then
        scan_symbols limit currency rest data (updated_symbols @ [symbol])
          (v\<lparr>enabled_symbols := enabled_symbols v @ [symbol]\<rparr>)
      else
        scan_symbols limit currency rest data updated_symbols
          (v\<lparr>has_disabled_symbols := True,
             symbols_logger := symbols_logger v @
               [LogError (''Disabled '' @ symbol @ '' trading pair from '' @ currency)]\<rparr>))"

text \<open>
  The outer loop of lines 48-70 over the currencies. A currency without the pairs key
  raises KeyError at line 56: the loop stops there, with the currencies before it
  already updated.
\<close>

fun currencies_loop ::
  "int \<Rightarrow> (string \<times> crypto_currency_data) list \<Rightarrow> symbols_vars \<Rightarrow>
   error option \<times> (string \<times> crypto_currency_data) list \<times> symbols_vars" where
  "currencies_loop limit [] v = (None, [], v)"
| "currencies_loop limit ((currency, data) # rest) v =
     (if get_enabled (currency_enabled data) then
        (if int (length (enabled_symbols v)) \<ge> limit then
           (case currencies_loop limit rest
                   (v\<lparr>symbols_logger := symbols_logger v @
                        [LogError (''Disabled all '' @ currency @ '' trading pairs'')],
                      has_disabled_symbols := True\<rparr>) of
              (err, rest', v') \<Rightarrow>
                (err, (currency, data\<lparr>currency_enabled := Some False\<rparr>) # rest', v'))
         else
           (case pairs data of
              None \<Rightarrow> (Some (KeyError CONFIG_CRYPTO_PAIRS), (currency, data) # rest, v)
            | Some symbols \<Rightarrow>
                (case scan_symbols limit currency symbols data [] v of
                   (data', updated_symbols, v') \<Rightarrow>
                     (case currencies_loop limit rest v' of
                        (err, rest', v'') \<Rightarrow>
                          (err, (currency, data'\<lparr>pairs := Some updated_symbols\<rparr>) # rest',
                           v'')))))
      else
        (case currencies_loop limit rest v of
           (err, rest', v') \<Rightarrow> (err, (currency, data) # rest', v')))"

definition symbols_message :: "string \<Rightarrow> int \<Rightarrow> string list \<Rightarrow> string" where
  "symbols_message msg limit symbols =
     msg @ ''Reached maximum allowed simultaneous trading pairs for this plan, maximum is '' @
     str_int limit @ ''. '' @
     ''Your OctoBot will trade following pairs: '' @ join '', '' symbols @ ''.''"

definition apply_symbols_limits ::
  "dict_config \<Rightarrow> logger \<Rightarrow> int \<Rightarrow> (error + string) \<times> dict_config \<times> logger" where
  "apply_symbols_limits dict_config logger limit =
     (case crypto_currencies dict_config of
        None \<Rightarrow> (Inl (KeyError CONFIG_CRYPTO_CURRENCIES), dict_config, logger)
      | Some items \<Rightarrow>
          (case currencies_loop limit items
                  \<lparr>enabled_symbols = [], has_disabled_symbols = False, message = [],
                   symbols_logger = logger\<rparr> of
             (err, items', v) \<Rightarrow>
               ((case err of
                   Some e \<Rightarrow> Inl e
                 | None \<Rightarrow>
                     if has_disabled_symbols v
                     then Inr (symbols_message (message v) limit (enabled_symbols v))
                     else Inr (message v)),
                dict_config\<lparr>crypto_currencies := Some items'\<rparr>, symbols_logger v)))"

subsection \<open>Time frames and the collaborators of the time frame limiter\<close>

text \<open>
  Modelled from the spec: the time frame enumeration and \<^verbatim>\<open>sort_time_frames\<close> belong to
  the library octobot_commons and are not under src/. A time frame carries the string
  the messages print (\<^verbatim>\<open>tf.value\<close>) and its duration, and the ordering utility sorts
  ascending by duration (shortest first).
\<close>

datatype time_frame = TimeFrame (tf_value: string) (minutes: nat)

definition sort_time_frames :: "time_frame list \<Rightarrow> time_frame list" where
  "sort_time_frames time_frames = sort_key minutes time_frames"

text \<open>
  Modelled from the spec: the collaborators \<^verbatim>\<open>get_tentacles_setup_config\<close>,
  \<^verbatim>\<open>get_activated_strategies_classes\<close>, \<^verbatim>\<open>get_time_frames_from_strategy\<close> and
  \<^verbatim>\<open>update_time_frames_config\<close> are not under src/. The tentacles setup is the list of
  the activated strategies, in their given order, each with its name and the time
  frames it requires; persisting an updated selection replaces the time frames of that
  strategy. A setup that cannot be resolved (\<open>None\<close>) makes the first collaborator raise.
\<close>

record configuration =
  config :: dict_config
  tentacles_setup_config :: "(string \<times> time_frame list) list option"

definition get_tentacles_setup_config ::
  "configuration \<Rightarrow> error + (string \<times> time_frame list) list" where
  "get_tentacles_setup_config full_config =
     (case tentacles_setup_config full_config of
        None \<Rightarrow> Inl (CollaboratorError ''get_tentacles_setup_config'')
      | Some strategies \<Rightarrow> Inr strategies)"

subsection \<open>The time frame limiter\<close>

definition slice_from :: "'a list \<Rightarrow> int \<Rightarrow> 'a list" where
  \<comment> \<open>the Python slice \<^verbatim>\<open>xs[i:]\<close>: a negative start counts from the end, clamped at 0\<close>
  "slice_from xs i =
     (if 0 \<le> i then drop (nat i) xs else drop (nat (int (length xs) + i)) xs)"

text \<open>
  The local variables of \<^verbatim>\<open>_apply_time_frames_limits\<close>, the logger, and the calls made
  to \<^verbatim>\<open>update_time_frames_config\<close> (strategy and persisted time frames), in order.
\<close>

record time_frames_vars =
  has_disabled_time_frames :: bool
  all_enabled_time_frames :: "time_frame list"
  time_frames_logger :: logger
  update_calls :: "(string \<times> time_frame list) list"

text \<open>
  Lines 86-106: the new aggregate. The iteration order of a Python set is not fixed by
  the language (for enumeration members it follows the hash of the member's name,
  which changes from one process to the next), so \<^verbatim>\<open>list(set(xs))\<close> is the parameter
  \<open>list_of_set\<close>; \<^verbatim>\<open>len(set(xs))\<close> is the number of distinct elements.
\<close>

definition combine_time_frames ::
  "(time_frame list \<Rightarrow> time_frame list) \<Rightarrow> int \<Rightarrow> time_frame list \<Rightarrow> time_frames_vars \<Rightarrow>
   time_frames_vars" where
  "combine_time_frames list_of_set limit config_time_frames v =
     (let combined_time_frames = all_enabled_time_frames v @ config_time_frames in
      if int (card (set combined_time_frames)) < limit then
        v\<lparr>all_enabled_time_frames := sort_time_frames (list_of_set combined_time_frames)\<rparr>
      else if int (card (set combined_time_frames)) > limit then
        (if int (length (all_enabled_time_frames v)) = limit then
           v\<lparr>has_disabled_time_frames := True\<rparr>
         else
           (let missing_tf = sort_time_frames
                  (filter (\<lambda>tf. tf \<notin> set (all_enabled_time_frames v)) config_time_frames);
                added_time_frames =
                  slice_from missing_tf (limit - int (length (all_enabled_time_frames v)))
            in v\<lparr>has_disabled_time_frames := True,
                 all_enabled_time_frames :=
                   sort_time_frames (all_enabled_time_frames v @ added_time_frames)\<rparr>))
      else
        v\<lparr>all_enabled_time_frames := list_of_set combined_time_frames\<rparr>)"

text \<open>Lines 107-121: the strategy's own selection, once time frames have been disabled.\<close>

definition patch_strategy ::
  "string \<Rightarrow> time_frame list \<Rightarrow> time_frames_vars \<Rightarrow>
   (string \<times> time_frame list) \<times> time_frames_vars" where
  "patch_strategy strategy_name config_time_frames v =
     (if has_disabled_time_frames v then
        (let strategy_enabled_time_frames =
               filter (\<lambda>tf. tf \<in> set (all_enabled_time_frames v)) config_time_frames;
             disabled =
               filter (\<lambda>tf. tf \<notin> set strategy_enabled_time_frames) config_time_frames;
             should_update_config = (disabled \<noteq> []);
             v' = v\<lparr>time_frames_logger := time_frames_logger v @
                    map (\<lambda>tf. LogError (''Disabled '' @ tf_value tf @ '' time frame for '' @
                                         strategy_name)) disabled\<rparr>
         in if should_update_config then
              ((strategy_name, strategy_enabled_time_frames),
               v'\<lparr>update_calls := update_calls v' @
                     [(strategy_name, strategy_enabled_time_frames)]\<rparr>)
            else ((strategy_name, config_time_frames), v'))
      else ((strategy_name, config_time_frames), v))"

text \<open>The loop of lines 82-121 over the activated strategies.\<close>

fun time_frames_loop ::
  "(time_frame list \<Rightarrow> time_frame list) \<Rightarrow> int \<Rightarrow> (string \<times> time_frame list) list \<Rightarrow>
   time_frames_vars \<Rightarrow> (string \<times> time_frame list) list \<times> time_frames_vars" where
  "time_frames_loop list_of_set limit [] v = ([], v)"
| "time_frames_loop list_of_set limit ((strategy_name, config_time_frames) # rest) v =
     (case patch_strategy strategy_name config_time_frames
             (combine_time_frames list_of_set limit config_time_frames v) of
        (strategy', v') \<Rightarrow>
          (case time_frames_loop list_of_set limit rest v' of
             (rest', v'') \<Rightarrow> (strategy' # rest', v'')))"

definition time_frames_message :: "int \<Rightarrow> time_frame list \<Rightarrow> string" where
  "time_frames_message limit time_frames =
     ''Reached maximum allowed simultaneous time frames for this plan, maximum is '' @
     str_int limit @ ''. '' @
     ''Your OctoBot will trade using following time frames: '' @
     join '', '' (map tf_value time_frames) @ ''.''"

definition initial_time_frames_vars :: "logger \<Rightarrow> time_frames_vars" where
  "initial_time_frames_vars logger =
     \<lparr>has_disabled_time_frames = False, all_enabled_time_frames = [],
      time_frames_logger = logger, update_calls = []\<rparr>"

definition apply_time_frames_limits ::
  "(time_frame list \<Rightarrow> time_frame list) \<Rightarrow> configuration \<Rightarrow> logger \<Rightarrow> int \<Rightarrow>
   (error + string) \<times> configuration \<times> logger" where
  "apply_time_frames_limits list_of_set full_config logger limit =
     (case get_tentacles_setup_config full_config of
        Inl e \<Rightarrow> (Inl e, full_config, logger)
      | Inr strategies \<Rightarrow>
          (case time_frames_loop list_of_set limit strategies
                  (initial_time_frames_vars logger) of
             (strategies', v) \<Rightarrow>
               (Inr (if has_disabled_time_frames v
                     then time_frames_message limit (all_enabled_time_frames v)
                     else []),
                full_config\<lparr>tentacles_setup_config := Some strategies'\<rparr>,
                time_frames_logger v)))"

subsection \<open>The orchestrator\<close>

text \<open>
  The ceilings are constants of \<^verbatim>\<open>octobot.constants\<close>, which is not under src/: they
  are parameters here.
\<close>

record constants =
  MAX_ALLOWED_EXCHANGES :: int
  MAX_ALLOWED_SYMBOLS :: int
  MAX_ALLOWED_TIME_FRAMES :: int
  UNLIMITED_ALLOWED :: int

text \<open>
  The three statements of the \<^verbatim>\<open>try\<close> block (lines 133-141). Each takes and returns
  \<^verbatim>\<open>limit_warning_messages\<close>, the configuration and the logger, with the exception
  raised, if any.
\<close>

definition exchanges_stage ::
  "constants \<Rightarrow> string list \<times> configuration \<times> logger \<Rightarrow>
   error option \<times> string list \<times> configuration \<times> logger" where
  "exchanges_stage c st =
     (case st of (limit_warning_messages, configuration, logger) \<Rightarrow>
        if MAX_ALLOWED_EXCHANGES c \<noteq> UNLIMITED_ALLOWED c then
          (case apply_exchanges_limits (config configuration) logger (MAX_ALLOWED_EXCHANGES c) of
             (Inl e, dict_config', logger') \<Rightarrow>
               (Some e, limit_warning_messages, configuration\<lparr>config := dict_config'\<rparr>, logger')
           | (Inr msg, dict_config', logger') \<Rightarrow>
               (None, if msg \<noteq> [] then limit_warning_messages @ [msg] else limit_warning_messages,
                configuration\<lparr>config := dict_config'\<rparr>, logger'))
        else (None, limit_warning_messages, configuration, logger))"

definition symbols_stage ::
  "constants \<Rightarrow> string list \<times> configuration \<times> logger \<Rightarrow>
   error option \<times> string list \<times> configuration \<times> logger" where
  "symbols_stage c st =
     (case st of (limit_warning_messages, configuration, logger) \<Rightarrow>
        if MAX_ALLOWED_SYMBOLS c \<noteq> UNLIMITED_ALLOWED c then
          (case apply_symbols_limits (config configuration) logger (MAX_ALLOWED_SYMBOLS c) of
             (Inl e, dict_config', logger') \<Rightarrow>
               (Some e, limit_warning_messages, configuration\<lparr>config := dict_config'\<rparr>, logger')
           | (Inr msg, dict_config', logger') \<Rightarrow>
               (None, if msg \<noteq> [] then limit_warning_messages @ [msg] else limit_warning_messages,
                configuration\<lparr>config := dict_config'\<rparr>, logger'))
        else (None, limit_warning_messages, configuration, logger))"

definition time_frames_stage ::
  "(time_frame list \<Rightarrow> time_frame list) \<Rightarrow> constants \<Rightarrow>
   string list \<times> configuration \<times> logger \<Rightarrow>
   error option \<times> string list \<times> configuration \<times> logger" where
  "time_frames_stage list_of_set c st =
     (case st of (limit_warning_messages, configuration, logger) \<Rightarrow>
        if MAX_ALLOWED_TIME_FRAMES c \<noteq> UNLIMITED_ALLOWED c then
          (case apply_time_frames_limits list_of_set configuration logger
                  (MAX_ALLOWED_TIME_FRAMES c) of
             (Inl e, configuration', logger') \<Rightarrow>
               (Some e, limit_warning_messages, configuration', logger')
           | (Inr msg, configuration', logger') \<Rightarrow>
               (None, if msg \<noteq> [] then limit_warning_messages @ [msg] else limit_warning_messages,
                configuration', logger'))
        else (None, limit_warning_messages, configuration, logger))"

definition try_block ::
  "(time_frame list \<Rightarrow> time_frame list) \<Rightarrow> constants \<Rightarrow>
   string list \<times> configuration \<times> logger \<Rightarrow>
   error option \<times> string list \<times> configuration \<times> logger" where
  "try_block list_of_set c st =
     (case exchanges_stage c st of
        (Some e, st1) \<Rightarrow> (Some e, st1)
      | (None, st1) \<Rightarrow>
          (case symbols_stage c st1 of
             (Some e, st2) \<Rightarrow> (Some e, st2)
           | (None, st2) \<Rightarrow> time_frames_stage list_of_set c st2))"

text \<open>
  \<^verbatim>\<open>apply_config_limits\<close>: the logger starts empty; the result is the list of warning
  messages, the configuration as the pass leaves it, and the records logged.
\<close>

definition apply_config_limits ::
  "(time_frame list \<Rightarrow> time_frame list) \<Rightarrow> constants \<Rightarrow> configuration \<Rightarrow>
   string list \<times> configuration \<times> logger" where
  "apply_config_limits list_of_set c configuration =
     (case try_block list_of_set c ([], configuration, []) of
        (err, limit_warning_messages, configuration', logger) \<Rightarrow>
          (limit_warning_messages, configuration',
           (case err of None \<Rightarrow> logger | Some e \<Rightarrow> logger @ [LogException e]) @
           map LogError limit_warning_messages))"

section \<open>Notions used to state the properties\<close>

text \<open>An entry counts as enabled when its enabled flag is absent or true.\<close>

definition exchange_is_enabled :: "string \<times> exchange_config \<Rightarrow> bool" where
  "exchange_is_enabled item = get_enabled (exchange_enabled (snd item))"

definition currency_is_enabled :: "string \<times> crypto_currency_data \<Rightarrow> bool" where
  "currency_is_enabled item = get_enabled (currency_enabled (snd item))"

text \<open>
  The pairs a currency stores, and the pairs of the currencies that are enabled: these
  are the pairs the bot trades after the symbol limiter has run.
\<close>

definition stored_pairs :: "crypto_currency_data \<Rightarrow> string list" where
  "stored_pairs data = (case pairs data of None \<Rightarrow> [] | Some symbols \<Rightarrow> symbols)"

definition enabled_pairs :: "(string \<times> crypto_currency_data) list \<Rightarrow> string list" where
  "enabled_pairs items =
     concat (map (\<lambda>item. stored_pairs (snd item)) (filter currency_is_enabled items))"

text \<open>A currency whose pair list contains the wildcard token.\<close>

definition has_wildcard :: "crypto_currency_data \<Rightarrow> bool" where
  "has_wildcard data = list_ex is_wildcard (stored_pairs data)"

text \<open>
  The local variables of the symbol limiter before the first currency (lines 45-47),
  with the logger it was given.
\<close>

definition initial_symbols_vars :: "logger \<Rightarrow> symbols_vars" where
  "initial_symbols_vars logger =
     \<lparr>enabled_symbols = [], has_disabled_symbols = False, message = [],
      symbols_logger = logger\<rparr>"

text \<open>
  No entry of the exchange mapping or of the currency mapping is re-enabled between
  two configurations: the mappings have the same keys in the same order, and a flag
  that was false is still false.
\<close>

definition exchange_not_reenabled ::
  "string \<times> exchange_config \<Rightarrow> string \<times> exchange_config \<Rightarrow> bool" where
  "exchange_not_reenabled before after =
     (fst after = fst before \<and>
      (exchange_enabled (snd before) = Some False \<longrightarrow> exchange_enabled (snd after) = Some False))"

definition currency_not_reenabled ::
  "string \<times> crypto_currency_data \<Rightarrow> string \<times> crypto_currency_data \<Rightarrow> bool" where
  "currency_not_reenabled before after =
     (fst after = fst before \<and>
      (currency_enabled (snd before) = Some False \<longrightarrow> currency_enabled (snd after) = Some False))"

definition no_entry_reenabled :: "dict_config \<Rightarrow> dict_config \<Rightarrow> bool" where
  "no_entry_reenabled before after =
     (rel_option (list_all2 exchange_not_reenabled) (exchanges before) (exchanges after) \<and>
      rel_option (list_all2 currency_not_reenabled)
        (crypto_currencies before) (crypto_currencies after))"

section \<open>Example configurations\<close>

subsection \<open>Time frames and strategies\<close>

text \<open>Four time frames, with the strings the messages print and their minutes.\<close>

definition ONE_MINUTE :: time_frame where "ONE_MINUTE = TimeFrame ''1m'' 1"

definition ONE_HOUR :: time_frame where "ONE_HOUR = TimeFrame ''1h'' 60"

definition ONE_DAY :: time_frame where "ONE_DAY = TimeFrame ''1d'' 1440"

definition ONE_WEEK :: time_frame where "ONE_WEEK = TimeFrame ''1w'' 10080"

text \<open>
  The two strategies of scenario 4 of the spec, and the state of the time frame
  limiter there once the aggregate has been updated for the second strategy.
\<close>

definition example_strategies :: "(string \<times> time_frame list) list" where
  "example_strategies =
     [(''S1'', [ONE_MINUTE, ONE_HOUR]), (''S2'', [ONE_HOUR, ONE_DAY, ONE_WEEK])]"

definition example_vars :: time_frames_vars where
  "example_vars =
     \<lparr>has_disabled_time_frames = True,
      all_enabled_time_frames = [ONE_MINUTE, ONE_HOUR, ONE_WEEK],
      time_frames_logger = [], update_calls = []\<rparr>"

text \<open>The state of the time frame limiter once a first strategy has requested 1m.\<close>

definition example_one_minute_vars :: time_frames_vars where
  "example_one_minute_vars =
     \<lparr>has_disabled_time_frames = False, all_enabled_time_frames = [ONE_MINUTE],
      time_frames_logger = [], update_calls = []\<rparr>"

text \<open>
  Two strategies whose union has three time frames; the first one lists 1h before 1m.
\<close>

definition example_unsorted_strategies :: "(string \<times> time_frame list) list" where
  "example_unsorted_strategies =
     [(''S1'', [ONE_HOUR, ONE_MINUTE]), (''S2'', [ONE_MINUTE, ONE_HOUR, ONE_DAY])]"

subsection \<open>Exchanges and currencies\<close>

text \<open>Three exchanges, all enabled, the second one by the absence of its flag.\<close>

definition example_exchanges :: "(string \<times> exchange_config) list" where
  "example_exchanges =
     [(''A'', \<lparr>exchange_enabled = Some True, exchange_type = None\<rparr>),
      (''B'', \<lparr>exchange_enabled = None, exchange_type = Some ''future''\<rparr>),
      (''C'', \<lparr>exchange_enabled = Some True, exchange_type = None\<rparr>)]"

text \<open>Two currencies: three pairs, then a pair followed by the wildcard.\<close>

definition example_currencies :: "(string \<times> crypto_currency_data) list" where
  "example_currencies =
     [(''BTC'', \<lparr>currency_enabled = Some True,
                pairs = Some [''BTC/USD'', ''BTC/EUR'', ''BTC/JPY'']\<rparr>),
      (''ETH'', \<lparr>currency_enabled = None, pairs = Some [''ETH/USD'', ''*'']\<rparr>)]"

text \<open>
  A currency with one pair, a currency with two pairs before the wildcard, and a
  currency with two pairs: with a ceiling of 3 the first two use the whole capacity.
\<close>

definition example_LTC :: "string \<times> crypto_currency_data" where
  "example_LTC = (''LTC'', \<lparr>currency_enabled = Some True, pairs = Some [''LTC/USD'']\<rparr>)"

definition example_BTC :: crypto_currency_data where
  "example_BTC = \<lparr>currency_enabled = None, pairs = Some [''BTC/USD'', ''BTC/EUR'', ''*'']\<rparr>"

definition example_ETH :: "string \<times> crypto_currency_data" where
  "example_ETH = (''ETH'', \<lparr>currency_enabled = None, pairs = Some [''ETH/USD'', ''ETH/EUR'']\<rparr>)"

definition example_wildcard_config :: dict_config where
  "example_wildcard_config =
     \<lparr>exchanges = None,
      crypto_currencies = Some [example_LTC, (''BTC'', example_BTC), example_ETH]\<rparr>"

subsection \<open>Whole configurations and ceilings\<close>

text \<open>
  Ceilings of one exchange, two symbols and three time frames, and a configuration
  over each of them: three exchanges, one of them disabled; three currencies, one of
  them disabled; the two strategies of scenario 4.
\<close>

definition example_constants :: constants where
  "example_constants =
     \<lparr>MAX_ALLOWED_EXCHANGES = 1, MAX_ALLOWED_SYMBOLS = 2, MAX_ALLOWED_TIME_FRAMES = 3,
      UNLIMITED_ALLOWED = - 1\<rparr>"

definition example_configuration :: configuration where
  "example_configuration =
     \<lparr>config =
        \<lparr>exchanges = Some
           [(''binance'', \<lparr>exchange_enabled = Some True, exchange_type = None\<rparr>),
            (''kraken'', \<lparr>exchange_enabled = Some False, exchange_type = None\<rparr>),
            (''coinbase'', \<lparr>exchange_enabled = None, exchange_type = None\<rparr>)],
         crypto_currencies = Some
           [(''XRP'', \<lparr>currency_enabled = Some False, pairs = Some [''XRP/USD'']\<rparr>),
            (''BTC'', \<lparr>currency_enabled = Some True,
                       pairs = Some [''BTC/USD'', ''BTC/EUR'', ''BTC/JPY'']\<rparr>),
            (''ETH'', \<lparr>currency_enabled = None, pairs = Some [''ETH/USD'', ''*'']\<rparr>)]\<rparr>,
      tentacles_setup_config = Some example_strategies\<rparr>"

text \<open>
  A configuration whose only currency has no pair list, so that the symbol limiter
  raises KeyError, and whose strategies request four time frames.
\<close>

definition example_failing_configuration :: configuration where
  "example_failing_configuration =
     \<lparr>config =
        \<lparr>exchanges = Some example_exchanges,
         crypto_currencies = Some [(''BTC'', \<lparr>currency_enabled = None, pairs = None\<rparr>)]\<rparr>,
      tentacles_setup_config = Some example_strategies\<rparr>"

text \<open>
  The same configuration without the exchanges key, a configuration whose tentacles
  setup cannot be resolved, and constants that limit the time frames only.
\<close>

definition example_no_exchanges :: configuration where
  "example_no_exchanges =
     example_failing_configuration\<lparr>config :=
       \<lparr>exchanges = None,
        crypto_currencies = Some [(''BTC'', \<lparr>currency_enabled = None, pairs = None\<rparr>)]\<rparr>\<rparr>"

definition example_no_setup :: configuration where
  "example_no_setup = example_failing_configuration\<lparr>tentacles_setup_config := None\<rparr>"

definition example_time_frames_only :: constants where
  "example_time_frames_only =
     \<lparr>MAX_ALLOWED_EXCHANGES = - 1, MAX_ALLOWED_SYMBOLS = - 1, MAX_ALLOWED_TIME_FRAMES = 3,
      UNLIMITED_ALLOWED = - 1\<rparr>"

text \<open>
  A configuration with one strategy that requests three time frames, and constants
  that allow one time frame and leave exchanges and symbols unlimited.
\<close>

definition example_three_time_frames :: configuration where
  "example_three_time_frames =
     \<lparr>config = \<lparr>exchanges = Some [], crypto_currencies = Some []\<rparr>,
      tentacles_setup_config = Some [(''S1'', [ONE_MINUTE, ONE_HOUR, ONE_DAY])]\<rparr>"

definition example_one_time_frame :: constants where
  "example_one_time_frame =
     \<lparr>MAX_ALLOWED_EXCHANGES = - 1, MAX_ALLOWED_SYMBOLS = - 1, MAX_ALLOWED_TIME_FRAMES = 1,
      UNLIMITED_ALLOWED = - 1\<rparr>"

section \<open>Properties\<close>

subsection \<open>Evaluation of the formatted ceilings\<close>

lemma str_nat_digit: "n < 10 \<Longrightarrow> str_nat n = [''0123456789'' ! n]"
  by (simp add: str_nat.simps)

lemma str_int_small [simp]:
  "str_int 1 = ''1''" "str_int 2 = ''2''" "str_int 3 = ''3''"
  by (simp_all add: str_int_def str_nat_digit)

subsection \<open>The exchange limiter keeps the first enabled entries\<close>

lemma exchanges_loop_length:
  "exchanges_loop limit items acc lg = (items', acc', lg') \<Longrightarrow> length items' = length items"
  by (induction limit items acc lg arbitrary: items' acc' lg' rule: exchanges_loop.induct)
     (auto split: if_splits prod.splits)

lemma exchanges_loop_enabled:
  "exchanges_loop limit items acc lg = (items', acc', lg') \<Longrightarrow>
   acc' = acc @ map fst (take (nat (limit - int (length acc))) (filter exchange_is_enabled items)) \<and>
   filter exchange_is_enabled items' =
     take (nat (limit - int (length acc))) (filter exchange_is_enabled items) \<and>
   lg' = lg @ map (\<lambda>item. LogError (''Disabled '' @ fst item))
                (drop (nat (limit - int (length acc))) (filter exchange_is_enabled items))"
proof (induction limit items acc lg arbitrary: items' acc' lg' rule: exchanges_loop.induct)
  case (1 limit enabled_exchanges logger)
  then show ?case by simp
next
  case (2 limit exchange config rest enabled_exchanges logger)
  show ?case
  proof (cases "get_enabled (exchange_enabled config)")
    case False
    with 2 show ?thesis
      by (auto simp: exchange_is_enabled_def split: prod.splits)
  next
    case en: True
    show ?thesis
    proof (cases "int (length enabled_exchanges) < limit")
      case True
      then obtain k where k: "nat (limit - int (length enabled_exchanges)) = Suc k"
        "nat (limit - int (length (enabled_exchanges @ [exchange]))) = k"
        by (cases "nat (limit - int (length enabled_exchanges))") auto
      with 2 en True show ?thesis
        by (auto simp: exchange_is_enabled_def split: prod.splits)
    next
      case False
      then have k: "nat (limit - int (length enabled_exchanges)) = 0" by simp
      with 2 en False show ?thesis
        by (auto simp: exchange_is_enabled_def get_enabled_def split: prod.splits)
    qed
  qed
qed

lemma exchanges_loop_nth:
  "exchanges_loop limit items acc lg = (items', acc', lg') \<Longrightarrow> i < length items \<Longrightarrow>
   items' ! i =
     (if exchange_is_enabled (items ! i) \<and>
         limit \<le> int (length acc) + int (length (filter exchange_is_enabled (take i items)))
      then (fst (items ! i), (snd (items ! i))\<lparr>exchange_enabled := Some False\<rparr>)
      else items ! i)"
proof (induction limit items acc lg arbitrary: items' acc' lg' i rule: exchanges_loop.induct)
  case (1 limit enabled_exchanges logger)
  then show ?case by simp
next
  case (2 limit exchange config rest enabled_exchanges logger)
  show ?case
  proof (cases i)
    case 0
    with 2 show ?thesis
      by (auto simp: exchange_is_enabled_def split: prod.splits if_splits)
  next
    case (Suc j)
    with 2 show ?thesis
      by (auto simp: exchange_is_enabled_def split: prod.splits if_splits)
  qed
qed

text \<open>
  Claim C6. For an exchange mapping and a ceiling of at least 1: when the number of
  enabled entries (an absent flag counts as enabled) is at most the ceiling, the
  exchange limiter leaves the configuration and the logger as they are and returns the
  empty message. Otherwise the entries still enabled afterwards are exactly the first
  \<open>limit\<close> entries that were enabled, in the order of the mapping; every enabled entry
  after them has its flag set to false and every other entry is unchanged; and the
  message names the ceiling and the retained exchanges in that order.
\<close>

theorem apply_exchanges_limits_keeps_first:
  assumes "exchanges dict_config = Some items" and "1 \<le> limit"
  shows
    "(int (length (filter exchange_is_enabled items)) \<le> limit \<longrightarrow>
        apply_exchanges_limits dict_config logger limit = (Inr [], dict_config, logger)) \<and>
     (int (length (filter exchange_is_enabled items)) > limit \<longrightarrow>
        (\<exists>items' logger'.
           apply_exchanges_limits dict_config logger limit =
             (Inr (''Reached maximum allowed simultaneous exchanges for this plan, maximum is '' @
                   str_int limit @ ''. '' @
                   ''Your OctoBot will trade on the following exchanges: '' @
                   join '', '' (map fst (take (nat limit) (filter exchange_is_enabled items)))),
              dict_config\<lparr>exchanges := Some items'\<rparr>, logger') \<and>
           length items' = length items \<and>
           filter exchange_is_enabled items' = take (nat limit) (filter exchange_is_enabled items) \<and>
           (\<forall>i<length items.
              items' ! i =
                (if exchange_is_enabled (items ! i) \<and>
                    nat limit \<le> length (filter exchange_is_enabled (take i items))
                 then (fst (items ! i), (snd (items ! i))\<lparr>exchange_enabled := Some False\<rparr>)
                 else items ! i))))"
proof (intro conjI impI)
  have count: "length (map (\<lambda>(exchange, config). exchange_key exchange config)
                 (filter (\<lambda>(exchange, config). get_enabled (exchange_enabled config)) items))
               = length (filter exchange_is_enabled items)"
    by (simp add: exchange_is_enabled_def [abs_def] case_prod_unfold)
  {
    assume "int (length (filter exchange_is_enabled items)) \<le> limit"
    with assms(1) count show
      "apply_exchanges_limits dict_config logger limit = (Inr [], dict_config, logger)"
      by (simp add: apply_exchanges_limits_def Let_def)
  }
  {
    assume over: "int (length (filter exchange_is_enabled items)) > limit"
    obtain items' acc' lg' where loop: "exchanges_loop limit items [] logger = (items', acc', lg')"
      by (cases "exchanges_loop limit items [] logger") auto
    from exchanges_loop_enabled [OF loop]
    have acc: "acc' = map fst (take (nat limit) (filter exchange_is_enabled items))"
      and flt: "filter exchange_is_enabled items' = take (nat limit) (filter exchange_is_enabled items)"
      by simp_all
    have len: "length items' = length items"
      by (rule exchanges_loop_length [OF loop])
    have nth: "\<forall>i<length items.
              items' ! i =
                (if exchange_is_enabled (items ! i) \<and>
                    nat limit \<le> length (filter exchange_is_enabled (take i items))
                 then (fst (items ! i), (snd (items ! i))\<lparr>exchange_enabled := Some False\<rparr>)
                 else items ! i)"
    proof (intro allI impI)
      fix i assume "i < length items"
      from exchanges_loop_nth [OF loop this] assms(2)
      show "items' ! i =
                (if exchange_is_enabled (items ! i) \<and>
                    nat limit \<le> length (filter exchange_is_enabled (take i items))
                 then (fst (items ! i), (snd (items ! i))\<lparr>exchange_enabled := Some False\<rparr>)
                 else items ! i)"
        by (simp add: nat_le_iff)
    qed
    from assms(1) count over loop acc
    have "apply_exchanges_limits dict_config logger limit =
             (Inr (''Reached maximum allowed simultaneous exchanges for this plan, maximum is '' @
                   str_int limit @ ''. '' @
                   ''Your OctoBot will trade on the following exchanges: '' @
                   join '', '' (map fst (take (nat limit) (filter exchange_is_enabled items)))),
              dict_config\<lparr>exchanges := Some items'\<rparr>, lg')"
      by (simp add: apply_exchanges_limits_def Let_def exchanges_message_def)
    with len flt nth show "\<exists>items' logger'.
           apply_exchanges_limits dict_config logger limit =
             (Inr (''Reached maximum allowed simultaneous exchanges for this plan, maximum is '' @
                   str_int limit @ ''. '' @
                   ''Your OctoBot will trade on the following exchanges: '' @
                   join '', '' (map fst (take (nat limit) (filter exchange_is_enabled items)))),
              dict_config\<lparr>exchanges := Some items'\<rparr>, logger') \<and>
           length items' = length items \<and>
           filter exchange_is_enabled items' = take (nat limit) (filter exchange_is_enabled items) \<and>
           (\<forall>i<length items.
              items' ! i =
                (if exchange_is_enabled (items ! i) \<and>
                    nat limit \<le> length (filter exchange_is_enabled (take i items))
                 then (fst (items ! i), (snd (items ! i))\<lparr>exchange_enabled := Some False\<rparr>)
                 else items ! i))"
      by blast
  }
qed

theorem apply_exchanges_limits_keeps_first_witness:
  "exchanges \<lparr>exchanges = Some example_exchanges, crypto_currencies = None\<rparr> = Some example_exchanges \<and>
   (1::int) \<le> 2 \<and>
   int (length (filter exchange_is_enabled example_exchanges)) > 2 \<and>
   fst (apply_exchanges_limits \<lparr>exchanges = Some example_exchanges, crypto_currencies = None\<rparr> [] 2) =
     Inr (''Reached maximum allowed simultaneous exchanges for this plan, maximum is 2. '' @
          ''Your OctoBot will trade on the following exchanges: A, B'') \<and>
   filter exchange_is_enabled
     (the (exchanges (fst (snd (apply_exchanges_limits
        \<lparr>exchanges = Some example_exchanges, crypto_currencies = None\<rparr> [] 2))))) =
     [(''A'', \<lparr>exchange_enabled = Some True, exchange_type = None\<rparr>),
      (''B'', \<lparr>exchange_enabled = None, exchange_type = Some ''future''\<rparr>)] \<and>
   the (exchanges (fst (snd (apply_exchanges_limits
        \<lparr>exchanges = Some example_exchanges, crypto_currencies = None\<rparr> [] 2)))) ! 2 =
     (''C'', \<lparr>exchange_enabled = Some False, exchange_type = None\<rparr>)"
proof -
  let ?cfg = "\<lparr>exchanges = Some example_exchanges, crypto_currencies = None\<rparr>"
  have h1: "exchanges ?cfg = Some example_exchanges" by simp
  have h2: "(1::int) \<le> 2" by simp
  have h3: "int (length (filter exchange_is_enabled example_exchanges)) > 2"
    by (simp add: example_exchanges_def exchange_is_enabled_def get_enabled_def)
  from apply_exchanges_limits_keeps_first [OF h1 h2, of "[]"] h3
  obtain items' logger' where
    r: "apply_exchanges_limits ?cfg [] 2 =
          (Inr (''Reached maximum allowed simultaneous exchanges for this plan, maximum is '' @
                str_int 2 @ ''. '' @
                ''Your OctoBot will trade on the following exchanges: '' @
                join '', '' (map fst (take (nat 2) (filter exchange_is_enabled example_exchanges)))),
           ?cfg\<lparr>exchanges := Some items'\<rparr>, logger')"
    and flt: "filter exchange_is_enabled items' =
                take (nat 2) (filter exchange_is_enabled example_exchanges)"
    and nth: "\<forall>i<length example_exchanges.
              items' ! i =
                (if exchange_is_enabled (example_exchanges ! i) \<and>
                    nat 2 \<le> length (filter exchange_is_enabled (take i example_exchanges))
                 then (fst (example_exchanges ! i),
                       (snd (example_exchanges ! i))\<lparr>exchange_enabled := Some False\<rparr>)
                 else example_exchanges ! i)"
    by blast
  have msg: "fst (apply_exchanges_limits ?cfg [] 2) =
     Inr (''Reached maximum allowed simultaneous exchanges for this plan, maximum is 2. '' @
          ''Your OctoBot will trade on the following exchanges: A, B'')"
    unfolding r by (simp add: example_exchanges_def exchange_is_enabled_def get_enabled_def)
  have kept: "filter exchange_is_enabled (the (exchanges (fst (snd (apply_exchanges_limits ?cfg [] 2))))) =
     [(''A'', \<lparr>exchange_enabled = Some True, exchange_type = None\<rparr>),
      (''B'', \<lparr>exchange_enabled = None, exchange_type = Some ''future''\<rparr>)]"
    unfolding r using flt
    by (simp add: example_exchanges_def exchange_is_enabled_def get_enabled_def)
  have "(2::nat) < length example_exchanges" by (simp add: example_exchanges_def)
  with nth have "items' ! 2 =
                (if exchange_is_enabled (example_exchanges ! 2) \<and>
                    nat 2 \<le> length (filter exchange_is_enabled (take 2 example_exchanges))
                 then (fst (example_exchanges ! 2),
                       (snd (example_exchanges ! 2))\<lparr>exchange_enabled := Some False\<rparr>)
                 else example_exchanges ! 2)"
    by blast
  then have "the (exchanges (fst (snd (apply_exchanges_limits ?cfg [] 2)))) ! 2 =
     (''C'', \<lparr>exchange_enabled = Some False, exchange_type = None\<rparr>)"
    unfolding r
    by (simp add: example_exchanges_def exchange_is_enabled_def get_enabled_def)
  with h1 h2 h3 msg kept show ?thesis by blast
qed

subsection \<open>The symbol limiter: ceiling and wildcard\<close>

lemma scan_symbols_result:
  "scan_symbols limit currency symbols data updated v = (data', updated', v') \<Longrightarrow>
   (\<exists>new. enabled_symbols v' = enabled_symbols v @ new \<and> updated' = updated @ new) \<and>
   (int (length (enabled_symbols v)) \<le> limit \<longrightarrow> int (length (enabled_symbols v')) \<le> limit) \<and>
   pairs data' = pairs data \<and>
   currency_enabled data' =
     (if list_ex is_wildcard symbols then Some False else currency_enabled data)"
proof (induction limit currency symbols data updated v arbitrary: data' updated' v'
    rule: scan_symbols.induct)
  case (1 limit currency data updated_symbols v)
  then show ?case by simp
next
  case (2 limit currency symbol rest data updated_symbols v)
  show ?case
  proof (cases "is_wildcard symbol")
    case True
    with 2(3) show ?thesis by auto
  next
    case nw: False
    show ?thesis
    proof (cases "int (length (enabled_symbols v)) < limit")
      case True
      from 2(1) [OF nw True] 2(3) nw True show ?thesis by auto
    next
      case False
      from 2(2) [OF nw False] 2(3) nw False show ?thesis by auto
    qed
  qed
qed

lemma currencies_loop_length:
  "currencies_loop limit items v = (err, items', v') \<Longrightarrow> length items' = length items"
  by (induction limit items v arbitrary: err items' v' rule: currencies_loop.induct)
     (auto split: if_splits prod.splits option.splits)

lemma currencies_loop_total:
  "currencies_loop limit items v = (None, items', v') \<Longrightarrow>
   (\<exists>new. enabled_symbols v' = enabled_symbols v @ new \<and>
      length (enabled_pairs items') \<le> length new) \<and>
   (int (length (enabled_symbols v)) \<le> limit \<longrightarrow> int (length (enabled_symbols v')) \<le> limit)"
proof (induction limit items v arbitrary: items' v' rule: currencies_loop.induct)
  case (1 limit v)
  then show ?case by (simp add: enabled_pairs_def)
next
  case (2 limit currency data rest v)
  show ?case
  proof (cases "get_enabled (currency_enabled data)")
    case False
    with "2.prems" obtain rest' where
      r: "currencies_loop limit rest v = (None, rest', v')" and i: "items' = (currency, data) # rest'"
      by (auto split: prod.splits)
    from "2.IH"(3) [OF False r] i False show ?thesis
      by (simp add: enabled_pairs_def currency_is_enabled_def)
  next
    case en: True
    show ?thesis
    proof (cases "int (length (enabled_symbols v)) \<ge> limit")
      case True
      let ?v = "v\<lparr>symbols_logger := symbols_logger v @
                        [LogError (''Disabled all '' @ currency @ '' trading pairs'')],
                      has_disabled_symbols := True\<rparr>"
      from "2.prems" en True obtain rest' where
        r: "currencies_loop limit rest ?v = (None, rest', v')"
        and i: "items' = (currency, data\<lparr>currency_enabled := Some False\<rparr>) # rest'"
        by (auto split: prod.splits)
      from "2.IH"(1) [OF en True r] i show ?thesis
        by (simp add: enabled_pairs_def currency_is_enabled_def get_enabled_def)
    next
      case False
      with "2.prems" en obtain symbols where p: "pairs data = Some symbols"
        by (cases "pairs data") auto
      obtain data1 updated v1 where
        s: "scan_symbols limit currency symbols data [] v = (data1, updated, v1)"
        by (cases "scan_symbols limit currency symbols data [] v") auto
      from "2.prems" en False p s obtain rest' where
        r: "currencies_loop limit rest v1 = (None, rest', v')"
        and i: "items' = (currency, data1\<lparr>pairs := Some updated\<rparr>) # rest'"
        by (auto split: prod.splits)
      from scan_symbols_result [OF s] have
        s1: "enabled_symbols v1 = enabled_symbols v @ updated"
        and s2: "int (length (enabled_symbols v)) \<le> limit \<longrightarrow> int (length (enabled_symbols v1)) \<le> limit"
        by auto
      from "2.IH"(2) [OF en False p s [symmetric] refl r] obtain new where
        n1: "enabled_symbols v' = enabled_symbols v1 @ new"
        and n2: "length (enabled_pairs rest') \<le> length new"
        and n3: "int (length (enabled_symbols v1)) \<le> limit \<longrightarrow> int (length (enabled_symbols v')) \<le> limit"
        by auto
      have "length (enabled_pairs items') \<le> length updated + length (enabled_pairs rest')"
        using i by (simp add: enabled_pairs_def stored_pairs_def)
      with s1 s2 n1 n2 n3 show ?thesis by auto
    qed
  qed
qed

lemma not_enabled_iff: "\<not> get_enabled flag \<longleftrightarrow> flag = Some False"
  by (auto simp: get_enabled_def split: option.splits)

lemma list_all2_same: "(\<And>x. x \<in> set xs \<Longrightarrow> P x x) \<Longrightarrow> list_all2 P xs xs"
  by (simp add: list_all2_conv_all_nth)

lemma currencies_loop_not_reenabled:
  "currencies_loop limit items v = (err, items', v') \<Longrightarrow>
   list_all2 currency_not_reenabled items items'"
proof (induction limit items v arbitrary: err items' v' rule: currencies_loop.induct)
  case (1 limit v)
  then show ?case by simp
next
  case (2 limit currency data rest v)
  show ?case
  proof (cases "get_enabled (currency_enabled data)")
    case False
    with "2.prems" "2.IH"(3) show ?thesis
      by (auto simp: currency_not_reenabled_def split: prod.splits)
  next
    case en: True
    show ?thesis
    proof (cases "int (length (enabled_symbols v)) \<ge> limit")
      case True
      with "2.prems" "2.IH"(1) en show ?thesis
        by (auto simp: currency_not_reenabled_def split: prod.splits)
    next
      case False
      show ?thesis
      proof (cases "pairs data")
        case None
        with "2.prems" en False show ?thesis
          by (auto simp: currency_not_reenabled_def intro!: list_all2_same)
      next
        case (Some symbols)
        obtain data1 updated v1 where
          s: "scan_symbols limit currency symbols data [] v = (data1, updated, v1)"
          by (cases "scan_symbols limit currency symbols data [] v") auto
        from "2.prems" en False Some s obtain rest' where
          r: "currencies_loop limit rest v1 = (err, rest', v')"
          and i: "items' = (currency, data1\<lparr>pairs := Some updated\<rparr>) # rest'"
          by (auto split: prod.splits)
        from scan_symbols_result [OF s] have
          "currency_enabled data = Some False \<longrightarrow> currency_enabled data1 = Some False"
          by auto
        with "2.IH"(2) [OF en False Some s [symmetric] refl r] i show ?thesis
          by (simp add: currency_not_reenabled_def)
      qed
    qed
  qed
qed

lemma currencies_loop_wildcard:
  "currencies_loop limit items v = (None, items', v') \<Longrightarrow>
   list_all2 (\<lambda>before after. fst after = fst before \<and>
                (has_wildcard (snd before) \<longrightarrow> currency_enabled (snd after) = Some False))
     items items'"
proof (induction limit items v arbitrary: items' v' rule: currencies_loop.induct)
  case (1 limit v)
  then show ?case by simp
next
  case (2 limit currency data rest v)
  show ?case
  proof (cases "get_enabled (currency_enabled data)")
    case False
    with "2.prems" "2.IH"(3) show ?thesis
      by (auto simp: not_enabled_iff split: prod.splits)
  next
    case en: True
    show ?thesis
    proof (cases "int (length (enabled_symbols v)) \<ge> limit")
      case True
      with "2.prems" "2.IH"(1) en show ?thesis
        by (auto split: prod.splits)
    next
      case False
      with "2.prems" en obtain symbols where p: "pairs data = Some symbols"
        by (cases "pairs data") auto
      obtain data1 updated v1 where
        s: "scan_symbols limit currency symbols data [] v = (data1, updated, v1)"
        by (cases "scan_symbols limit currency symbols data [] v") auto
      from "2.prems" en False p s obtain rest' where
        r: "currencies_loop limit rest v1 = (None, rest', v')"
        and i: "items' = (currency, data1\<lparr>pairs := Some updated\<rparr>) # rest'"
        by (auto split: prod.splits)
      from scan_symbols_result [OF s] p have
        "has_wildcard data \<longrightarrow> currency_enabled data1 = Some False"
        by (auto simp: has_wildcard_def stored_pairs_def)
      with "2.IH"(2) [OF en False p s [symmetric] refl r] i show ?thesis
        by simp
    qed
  qed
qed

lemma currencies_loop_returns:
  "\<forall>item\<in>set items. pairs (snd item) \<noteq> None \<Longrightarrow> fst (currencies_loop limit items v) = None"
proof (induction items arbitrary: v)
  case Nil
  then show ?case by simp
next
  case (Cons item items)
  obtain currency data where item: "item = (currency, data)" by (cases item)
  from Cons.prems item obtain symbols where p: "pairs data = Some symbols" by auto
  from Cons have IH: "\<And>v. fst (currencies_loop limit items v) = None" by simp
  show ?case
    unfolding item using p IH
    by (simp add: case_prod_unfold)
qed

text \<open>
  Claim C7. For a currency mapping and a ceiling of at least 1, the symbol limiter
  returns (it cannot raise when every currency has a pair list), and whenever it
  returns, the pairs of the currencies still enabled number at most the ceiling, and
  every currency whose pair list contained the wildcard token has its enabled flag
  false.
\<close>

theorem apply_symbols_limits_ceiling:
  assumes "crypto_currencies dict_config = Some items" and "1 \<le> limit"
  shows
    "((\<forall>item\<in>set items. pairs (snd item) \<noteq> None) \<longrightarrow>
        (\<exists>msg. fst (apply_symbols_limits dict_config logger limit) = Inr msg)) \<and>
     (\<forall>msg dict_config' logger'.
        apply_symbols_limits dict_config logger limit = (Inr msg, dict_config', logger') \<longrightarrow>
        (\<exists>items'.
           crypto_currencies dict_config' = Some items' \<and>
           length items' = length items \<and>
           int (length (enabled_pairs items')) \<le> limit \<and>
           (\<forall>i<length items.
              fst (items' ! i) = fst (items ! i) \<and>
              (has_wildcard (snd (items ! i)) \<longrightarrow>
                 currency_enabled (snd (items' ! i)) = Some False))))"
proof (intro conjI impI allI)
  let ?v0 = "\<lparr>enabled_symbols = [], has_disabled_symbols = False, message = [],
              symbols_logger = logger\<rparr>"
  obtain err items' v where loop: "currencies_loop limit items ?v0 = (err, items', v)"
    by (cases "currencies_loop limit items ?v0") auto
  {
    assume "\<forall>item\<in>set items. pairs (snd item) \<noteq> None"
    from currencies_loop_returns [OF this, of limit ?v0] loop have "err = None" by simp
    with assms(1) loop
    show "\<exists>msg. fst (apply_symbols_limits dict_config logger limit) = Inr msg"
      by (simp add: apply_symbols_limits_def)
  }
  {
    fix msg dict_config' logger'
    assume "apply_symbols_limits dict_config logger limit = (Inr msg, dict_config', logger')"
    with assms(1) loop have none: "err = None"
      and dc: "dict_config' = dict_config\<lparr>crypto_currencies := Some items'\<rparr>"
      by (auto simp: apply_symbols_limits_def split: option.splits)
    from loop none have loop': "currencies_loop limit items ?v0 = (None, items', v)" by simp
    from currencies_loop_total [OF loop'] assms(2)
    have total: "int (length (enabled_pairs items')) \<le> limit" by auto
    have len: "length items' = length items"
      by (rule currencies_loop_length [OF loop])
    from currencies_loop_wildcard [OF loop']
    have "\<forall>i<length items.
              fst (items' ! i) = fst (items ! i) \<and>
              (has_wildcard (snd (items ! i)) \<longrightarrow>
                 currency_enabled (snd (items' ! i)) = Some False)"
      by (simp add: list_all2_conv_all_nth)
    with dc total len
    show "\<exists>items'.
           crypto_currencies dict_config' = Some items' \<and>
           length items' = length items \<and>
           int (length (enabled_pairs items')) \<le> limit \<and>
           (\<forall>i<length items.
              fst (items' ! i) = fst (items ! i) \<and>
              (has_wildcard (snd (items ! i)) \<longrightarrow>
                 currency_enabled (snd (items' ! i)) = Some False))"
      by simp
  }
qed

theorem apply_symbols_limits_ceiling_witness:
  "crypto_currencies \<lparr>exchanges = None, crypto_currencies = Some example_currencies\<rparr> =
     Some example_currencies \<and>
   (1::int) \<le> 2 \<and>
   list_all (\<lambda>item. pairs (snd item) \<noteq> None) example_currencies \<and>
   has_wildcard (snd (example_currencies ! 1)) \<and>
   (\<exists>msg. fst (apply_symbols_limits
      \<lparr>exchanges = None, crypto_currencies = Some example_currencies\<rparr> [] 2) = Inr msg) \<and>
   int (length (enabled_pairs (the (crypto_currencies (fst (snd (apply_symbols_limits
      \<lparr>exchanges = None, crypto_currencies = Some example_currencies\<rparr> [] 2))))))) \<le> 2 \<and>
   currency_enabled (snd (the (crypto_currencies (fst (snd (apply_symbols_limits
      \<lparr>exchanges = None, crypto_currencies = Some example_currencies\<rparr> [] 2)))) ! 1)) = Some False"
proof -
  let ?cfg = "\<lparr>exchanges = None, crypto_currencies = Some example_currencies\<rparr>"
  have h1: "crypto_currencies ?cfg = Some example_currencies" by simp
  have h2: "(1::int) \<le> 2" by simp
  have h3: "\<forall>item\<in>set example_currencies. pairs (snd item) \<noteq> None"
    by (simp add: example_currencies_def)
  have h4: "has_wildcard (snd (example_currencies ! 1))"
    by (simp add: example_currencies_def has_wildcard_def stored_pairs_def is_wildcard_def
          CONFIG_SYMBOLS_WILDCARD_def)
  have h5: "(1::nat) < length example_currencies" by (simp add: example_currencies_def)
  note inst = apply_symbols_limits_ceiling [OF h1 h2, of "[]"]
  from inst h3 obtain msg where m: "fst (apply_symbols_limits ?cfg [] 2) = Inr msg" by blast
  then obtain dict_config' logger' where
    r: "apply_symbols_limits ?cfg [] 2 = (Inr msg, dict_config', logger')"
    by (cases "apply_symbols_limits ?cfg [] 2") auto
  with inst obtain items' where
    "crypto_currencies dict_config' = Some items'"
    "int (length (enabled_pairs items')) \<le> 2"
    "\<forall>i<length example_currencies.
              fst (items' ! i) = fst (example_currencies ! i) \<and>
              (has_wildcard (snd (example_currencies ! i)) \<longrightarrow>
                 currency_enabled (snd (items' ! i)) = Some False)"
    by blast
  with h4 h5 have
    "int (length (enabled_pairs (the (crypto_currencies (fst (snd (apply_symbols_limits ?cfg [] 2))))))) \<le> 2"
    "currency_enabled (snd (the (crypto_currencies (fst (snd (apply_symbols_limits ?cfg [] 2)))) ! 1)) = Some False"
    unfolding r by auto
  moreover from h3 have "list_all (\<lambda>item. pairs (snd item) \<noteq> None) example_currencies"
    by (simp add: list_all_iff)
  ultimately show ?thesis using h1 h2 h4 m by blast
qed

subsection \<open>Enabled flags only move from true to false\<close>

lemma exchanges_loop_not_reenabled:
  "exchanges_loop limit items acc lg = (items', result) \<Longrightarrow>
   list_all2 exchange_not_reenabled items items'"
  by (induction limit items acc lg arbitrary: items' result rule: exchanges_loop.induct)
     (auto simp: exchange_not_reenabled_def not_enabled_iff split: if_splits prod.splits)

lemma no_entry_reenabled_refl: "no_entry_reenabled dict_config dict_config"
  by (auto simp: no_entry_reenabled_def option.rel_refl_strong exchange_not_reenabled_def
        currency_not_reenabled_def intro!: list_all2_same option.rel_refl_strong)

lemma no_entry_reenabled_trans:
  assumes "no_entry_reenabled a b" and "no_entry_reenabled b c"
  shows "no_entry_reenabled a c"
proof -
  have e: "list_all2 exchange_not_reenabled xs zs"
    if "list_all2 exchange_not_reenabled xs ys" "list_all2 exchange_not_reenabled ys zs"
    for xs ys zs
    using that by (auto simp: list_all2_conv_all_nth exchange_not_reenabled_def)
  have c: "list_all2 currency_not_reenabled xs zs"
    if "list_all2 currency_not_reenabled xs ys" "list_all2 currency_not_reenabled ys zs"
    for xs ys zs
    using that by (auto simp: list_all2_conv_all_nth currency_not_reenabled_def)
  from assms show ?thesis
    unfolding no_entry_reenabled_def
    by (cases "exchanges a"; cases "exchanges b"; cases "exchanges c";
        cases "crypto_currencies a"; cases "crypto_currencies b"; cases "crypto_currencies c")
       (auto intro: e c)
qed

lemma apply_exchanges_limits_not_reenabled:
  "no_entry_reenabled dict_config (fst (snd (apply_exchanges_limits dict_config logger limit)))"
proof (cases "exchanges dict_config")
  case None
  then show ?thesis
    by (simp add: apply_exchanges_limits_def no_entry_reenabled_refl)
next
  case (Some items)
  obtain items' result where loop: "exchanges_loop limit items [] logger = (items', result)"
    by (cases "exchanges_loop limit items [] logger") auto
  have "no_entry_reenabled dict_config (dict_config\<lparr>exchanges := Some items'\<rparr>)"
    using exchanges_loop_not_reenabled [OF loop] no_entry_reenabled_refl [of dict_config] Some
    by (simp add: no_entry_reenabled_def)
  with Some loop show ?thesis
    by (auto simp: apply_exchanges_limits_def Let_def no_entry_reenabled_refl split: prod.splits)
qed

lemma apply_symbols_limits_not_reenabled:
  "no_entry_reenabled dict_config (fst (snd (apply_symbols_limits dict_config logger limit)))"
proof (cases "crypto_currencies dict_config")
  case None
  then show ?thesis
    by (simp add: apply_symbols_limits_def no_entry_reenabled_refl)
next
  case (Some items)
  let ?v0 = "\<lparr>enabled_symbols = [], has_disabled_symbols = False, message = [],
              symbols_logger = logger\<rparr>"
  obtain err items' v where loop: "currencies_loop limit items ?v0 = (err, items', v)"
    by (cases "currencies_loop limit items ?v0") auto
  have "no_entry_reenabled dict_config (dict_config\<lparr>crypto_currencies := Some items'\<rparr>)"
    using currencies_loop_not_reenabled [OF loop] no_entry_reenabled_refl [of dict_config] Some
    by (simp add: no_entry_reenabled_def)
  with Some loop show ?thesis
    by (simp add: apply_symbols_limits_def)
qed

lemma apply_time_frames_limits_config:
  "config (fst (snd (apply_time_frames_limits list_of_set configuration logger limit))) =
   config configuration"
  by (simp add: apply_time_frames_limits_def split: sum.splits prod.splits)

lemma exchanges_stage_not_reenabled:
  "exchanges_stage c (msgs, configuration, logger) = (err, msgs', configuration', logger') \<Longrightarrow>
   no_entry_reenabled (config configuration) (config configuration')"
  using apply_exchanges_limits_not_reenabled
          [of "config configuration" logger "MAX_ALLOWED_EXCHANGES c"]
  by (auto simp: exchanges_stage_def no_entry_reenabled_refl split: if_splits prod.splits sum.splits)

lemma symbols_stage_not_reenabled:
  "symbols_stage c (msgs, configuration, logger) = (err, msgs', configuration', logger') \<Longrightarrow>
   no_entry_reenabled (config configuration) (config configuration')"
  using apply_symbols_limits_not_reenabled
          [of "config configuration" logger "MAX_ALLOWED_SYMBOLS c"]
  by (auto simp: symbols_stage_def no_entry_reenabled_refl split: if_splits prod.splits sum.splits)

lemma time_frames_stage_config:
  "time_frames_stage list_of_set c (msgs, configuration, logger) =
     (err, msgs', configuration', logger') \<Longrightarrow>
   config configuration' = config configuration"
  using apply_time_frames_limits_config
          [of list_of_set configuration logger "MAX_ALLOWED_TIME_FRAMES c"]
  by (auto simp: time_frames_stage_def split: if_splits prod.splits sum.splits)

lemma try_block_not_reenabled:
  assumes "try_block list_of_set c (msgs, configuration, logger) =
             (err, msgs', configuration', logger')"
  shows "no_entry_reenabled (config configuration) (config configuration')"
proof -
  obtain e1 m1 c1 l1 where s1: "exchanges_stage c (msgs, configuration, logger) = (e1, m1, c1, l1)"
    by (cases "exchanges_stage c (msgs, configuration, logger)") auto
  note r1 = exchanges_stage_not_reenabled [OF s1]
  show ?thesis
  proof (cases e1)
    case (Some e)
    with assms s1 r1 show ?thesis by (simp add: try_block_def)
  next
    case None
    obtain e2 m2 c2 l2 where s2: "symbols_stage c (m1, c1, l1) = (e2, m2, c2, l2)"
      by (cases "symbols_stage c (m1, c1, l1)") auto
    note r2 = no_entry_reenabled_trans [OF r1 symbols_stage_not_reenabled [OF s2]]
    show ?thesis
    proof (cases e2)
      case (Some e)
      with assms s1 s2 None r2 show ?thesis by (simp add: try_block_def)
    next
      case n2: None
      from assms s1 s2 None n2
      have "time_frames_stage list_of_set c (m2, c2, l2) = (err, msgs', configuration', logger')"
        by (simp add: try_block_def)
      from time_frames_stage_config [OF this] r2 show ?thesis by simp
    qed
  qed
qed

text \<open>
  Claim C9. For every configuration and every ceiling, no limiter re-enables an entry:
  after the exchange limiter, after the symbol limiter, after the time frame limiter
  (which leaves the exchange and currency mappings as they are) and after a whole
  pass of the orchestrator, whether a limiter raised or not, every exchange entry and
  every currency entry whose enabled flag was false still has it false.
\<close>

theorem limiters_never_reenable:
  "no_entry_reenabled dict_config
     (fst (snd (apply_exchanges_limits dict_config logger limit))) \<and>
   no_entry_reenabled dict_config
     (fst (snd (apply_symbols_limits dict_config logger limit))) \<and>
   config (fst (snd (apply_time_frames_limits list_of_set configuration logger limit))) =
     config configuration \<and>
   no_entry_reenabled (config configuration)
     (config (fst (snd (apply_config_limits list_of_set c configuration))))"
proof -
  obtain err msgs configuration' logger' where
    t: "try_block list_of_set c ([], configuration, []) = (err, msgs, configuration', logger')"
    by (cases "try_block list_of_set c ([], configuration, [])") auto
  from try_block_not_reenabled [OF t] t
  have "no_entry_reenabled (config configuration)
     (config (fst (snd (apply_config_limits list_of_set c configuration))))"
    by (simp add: apply_config_limits_def)
  then show ?thesis
    using apply_exchanges_limits_not_reenabled apply_symbols_limits_not_reenabled
      apply_time_frames_limits_config
    by blast
qed

theorem limiters_never_reenable_witness:
  "exchange_enabled (snd (the (exchanges (config example_configuration)) ! 1)) = Some False \<and>
   currency_enabled (snd (the (crypto_currencies (config example_configuration)) ! 0)) = Some False \<and>
   (\<exists>exs curs.
      exchanges (config (fst (snd (apply_config_limits remdups example_constants
        example_configuration)))) = Some exs \<and>
      crypto_currencies (config (fst (snd (apply_config_limits remdups example_constants
        example_configuration)))) = Some curs \<and>
      fst (exs ! 1) = ''kraken'' \<and> exchange_enabled (snd (exs ! 1)) = Some False \<and>
      fst (curs ! 0) = ''XRP'' \<and> currency_enabled (snd (curs ! 0)) = Some False)"
proof -
  let ?after = "config (fst (snd (apply_config_limits remdups example_constants
        example_configuration)))"
  have h1: "exchange_enabled (snd (the (exchanges (config example_configuration)) ! 1)) = Some False"
    by (simp add: example_configuration_def)
  have h2: "currency_enabled (snd (the (crypto_currencies (config example_configuration)) ! 0)) = Some False"
    by (simp add: example_configuration_def)
  from limiters_never_reenable [where list_of_set = remdups and configuration = example_configuration and c = example_constants]
  have n: "no_entry_reenabled (config example_configuration) ?after" by blast
  obtain xs where xs: "exchanges (config example_configuration) = Some xs"
    "length xs = 3" "fst (xs ! 1) = ''kraken''" "exchange_enabled (snd (xs ! 1)) = Some False"
    by (simp add: example_configuration_def)
  obtain cs where cs: "crypto_currencies (config example_configuration) = Some cs"
    "length cs = 3" "fst (cs ! 0) = ''XRP''" "currency_enabled (snd (cs ! 0)) = Some False"
    by (simp add: example_configuration_def)
  from n xs(1) obtain exs where exs: "exchanges ?after = Some exs"
    "list_all2 exchange_not_reenabled xs exs"
    unfolding no_entry_reenabled_def by (auto simp: option_rel_Some1)
  from n cs(1) obtain curs where curs: "crypto_currencies ?after = Some curs"
    "list_all2 currency_not_reenabled cs curs"
    unfolding no_entry_reenabled_def by (auto simp: option_rel_Some1)
  from exs(2) xs have "fst (exs ! 1) = ''kraken'' \<and> exchange_enabled (snd (exs ! 1)) = Some False"
    by (auto simp: list_all2_conv_all_nth exchange_not_reenabled_def)
  moreover
  from curs(2) cs have "fst (curs ! 0) = ''XRP'' \<and> currency_enabled (snd (curs ! 0)) = Some False"
    by (auto simp: list_all2_conv_all_nth currency_not_reenabled_def)
  ultimately show ?thesis using h1 h2 exs(1) curs(1) by blast
qed

subsection \<open>The time frame limiter: the selection of each strategy\<close>

lemmas time_frame_examples = ONE_MINUTE_def ONE_HOUR_def ONE_DAY_def ONE_WEEK_def

lemma example_strategies_loop:
  "time_frames_loop remdups 3 example_strategies (initial_time_frames_vars []) =
     ([(''S1'', [ONE_MINUTE, ONE_HOUR]), (''S2'', [ONE_HOUR, ONE_WEEK])],
      \<lparr>has_disabled_time_frames = True,
       all_enabled_time_frames = [ONE_MINUTE, ONE_HOUR, ONE_WEEK],
       time_frames_logger = [LogError ''Disabled 1d time frame for S2''],
       update_calls = [(''S2'', [ONE_HOUR, ONE_WEEK])]\<rparr>)"
  by (simp add: example_strategies_def initial_time_frames_vars_def combine_time_frames_def
        patch_strategy_def sort_time_frames_def slice_from_def Let_def time_frame_examples
        card_insert_if)

lemma set_sort_time_frames [simp]: "set (sort_time_frames xs) = set xs"
  by (simp add: sort_time_frames_def)

lemma set_slice_from: "set (slice_from xs i) \<subseteq> set xs"
  by (auto simp: slice_from_def dest: in_set_dropD)

lemma combine_time_frames_mono:
  assumes "\<forall>xs. set (list_of_set xs) = set xs"
  shows "set (all_enabled_time_frames v) \<subseteq>
         set (all_enabled_time_frames (combine_time_frames list_of_set limit tfs v))"
  using assms by (auto simp: combine_time_frames_def Let_def)

lemma combine_time_frames_unflagged:
  assumes "\<forall>xs. set (list_of_set xs) = set xs"
    and "\<not> has_disabled_time_frames (combine_time_frames list_of_set limit tfs v)"
  shows "set tfs \<subseteq> set (all_enabled_time_frames (combine_time_frames list_of_set limit tfs v))"
  using assms by (auto simp: combine_time_frames_def Let_def split: if_splits)

lemma patch_strategy_all_enabled [simp]:
  "all_enabled_time_frames (snd (patch_strategy name tfs v)) = all_enabled_time_frames v"
  by (simp add: patch_strategy_def Let_def)

lemma filter_absent:
  "filter (\<lambda>tf. tf \<notin> set (filter (\<lambda>tf. tf \<in> A) tfs)) tfs = filter (\<lambda>tf. tf \<notin> A) tfs"
  by (rule filter_cong) auto

lemma filter_absent_Nil: "filter (\<lambda>tf. tf \<notin> A) tfs = [] \<longleftrightarrow> set tfs \<subseteq> A"
  by (auto simp: filter_empty_conv)

lemma filter_present_id: "set tfs \<subseteq> A \<Longrightarrow> filter (\<lambda>tf. tf \<in> A) tfs = tfs"
  by (induction tfs) auto

lemma patch_strategy_flagged:
  assumes "has_disabled_time_frames v"
  shows "patch_strategy name tfs v =
     ((name, filter (\<lambda>tf. tf \<in> set (all_enabled_time_frames v)) tfs),
      v\<lparr>time_frames_logger := time_frames_logger v @
           map (\<lambda>tf. LogError (''Disabled '' @ tf_value tf @ '' time frame for '' @ name))
             (filter (\<lambda>tf. tf \<notin> set (all_enabled_time_frames v)) tfs),
        update_calls := update_calls v @
           (if set tfs \<subseteq> set (all_enabled_time_frames v) then []
            else [(name, filter (\<lambda>tf. tf \<in> set (all_enabled_time_frames v)) tfs)])\<rparr>)"
proof -
  let ?all = "set (all_enabled_time_frames v)"
  have d: "filter (\<lambda>tf. tf \<notin> set (filter (\<lambda>tf. tf \<in> ?all) tfs)) tfs =
           filter (\<lambda>tf. tf \<notin> ?all) tfs"
    by (rule filter_absent)
  show ?thesis
  proof (cases "set tfs \<subseteq> ?all")
    case True
    then have "filter (\<lambda>tf. tf \<notin> ?all) tfs = []" "filter (\<lambda>tf. tf \<in> ?all) tfs = tfs"
      by (simp_all only: filter_absent_Nil filter_present_id)
    with assms True show ?thesis
      unfolding patch_strategy_def Let_def d by simp
  next
    case False
    then have "filter (\<lambda>tf. tf \<notin> ?all) tfs \<noteq> []"
      by (simp only: filter_absent_Nil not_False_eq_True)
    with assms False show ?thesis
      unfolding patch_strategy_def Let_def d by simp
  qed
qed

lemma patch_strategy_subset:
  assumes "has_disabled_time_frames v \<or> set tfs \<subseteq> set (all_enabled_time_frames v)"
  shows "set (snd (fst (patch_strategy name tfs v))) \<subseteq> set (all_enabled_time_frames v)"
proof (cases "has_disabled_time_frames v")
  case True
  then show ?thesis by (auto simp: patch_strategy_flagged)
next
  case False
  with assms show ?thesis by (simp add: patch_strategy_def)
qed

lemma time_frames_loop_subset:
  assumes "\<forall>xs. set (list_of_set xs) = set xs"
    and "time_frames_loop list_of_set limit strategies v = (strategies', v')"
  shows "set (all_enabled_time_frames v) \<subseteq> set (all_enabled_time_frames v') \<and>
         (\<forall>strategy\<in>set strategies'. set (snd strategy) \<subseteq> set (all_enabled_time_frames v'))"
  using assms(2)
proof (induction strategies arbitrary: v strategies' v')
  case Nil
  then show ?case by simp
next
  case (Cons strategy strategies)
  obtain name tfs where s: "strategy = (name, tfs)" by (cases strategy)
  let ?v1 = "combine_time_frames list_of_set limit tfs v"
  obtain strategy1 v2 where p: "patch_strategy name tfs ?v1 = (strategy1, v2)"
    by (cases "patch_strategy name tfs ?v1") auto
  obtain rest' where r: "time_frames_loop list_of_set limit strategies v2 = (rest', v')"
    and i: "strategies' = strategy1 # rest'"
    using Cons.prems s p by (auto split: prod.splits)
  have a2: "all_enabled_time_frames v2 = all_enabled_time_frames ?v1"
    using patch_strategy_all_enabled [of name tfs ?v1] p by simp
  have "has_disabled_time_frames ?v1 \<or> set tfs \<subseteq> set (all_enabled_time_frames ?v1)"
    using combine_time_frames_unflagged [OF assms(1)] by blast
  from patch_strategy_subset [OF this, of name] p a2
  have s1: "set (snd strategy1) \<subseteq> set (all_enabled_time_frames v2)" by simp
  from Cons.IH [OF r] combine_time_frames_mono [OF assms(1), of v limit tfs] a2 s1 i
  show ?case by auto
qed

text \<open>
  Claim C8. In the time frame limiter, when the has-disabled-time-frames flag is set at
  the point a strategy is processed (after the aggregate has been updated for it), the
  strategy's enabled time frames are its requested time frames that are in the current
  aggregate; one disable line is logged for each requested time frame absent from
  them; the collaborator that persists the selection is called for the strategy, with
  that selection, exactly when the selection is not the whole requested set; and the
  strategy is left with that selection. Consequently, at the end of the loop every
  strategy's time frames are among those of the final aggregate (for any listing
  \<open>list_of_set\<close> of a set that lists the elements of the set).
\<close>

theorem time_frames_selection_of_strategy:
  assumes "\<forall>xs. set (list_of_set xs) = set xs"
  shows
    "(has_disabled_time_frames v \<longrightarrow>
        (let strategy_enabled =
               filter (\<lambda>tf. tf \<in> set (all_enabled_time_frames v)) config_time_frames
         in set strategy_enabled = set config_time_frames \<inter> set (all_enabled_time_frames v) \<and>
            patch_strategy strategy_name config_time_frames v =
              ((strategy_name, strategy_enabled),
               v\<lparr>time_frames_logger := time_frames_logger v @
                    map (\<lambda>tf. LogError (''Disabled '' @ tf_value tf @ '' time frame for '' @
                                         strategy_name))
                      (filter (\<lambda>tf. tf \<notin> set strategy_enabled) config_time_frames),
                 update_calls := update_calls v @
                    (if set strategy_enabled = set config_time_frames then []
                     else [(strategy_name, strategy_enabled)])\<rparr>))) \<and>
     (\<forall>strategies' v'.
        time_frames_loop list_of_set limit strategies (initial_time_frames_vars logger) =
          (strategies', v') \<longrightarrow>
        (\<forall>strategy\<in>set strategies'.
           set (snd strategy) \<subseteq> set (all_enabled_time_frames v')))"
proof (intro conjI impI allI)
  assume flag: "has_disabled_time_frames v"
  let ?all = "set (all_enabled_time_frames v)"
  let ?en = "filter (\<lambda>tf. tf \<in> ?all) config_time_frames"
  have a: "set ?en = set config_time_frames \<inter> ?all" by auto
  have b: "filter (\<lambda>tf. tf \<notin> set ?en) config_time_frames =
           filter (\<lambda>tf. tf \<notin> ?all) config_time_frames"
    by (rule filter_absent)
  have c: "set ?en = set config_time_frames \<longleftrightarrow> set config_time_frames \<subseteq> ?all"
    by auto
  show "let strategy_enabled =
               filter (\<lambda>tf. tf \<in> set (all_enabled_time_frames v)) config_time_frames
         in set strategy_enabled = set config_time_frames \<inter> set (all_enabled_time_frames v) \<and>
            patch_strategy strategy_name config_time_frames v =
              ((strategy_name, strategy_enabled),
               v\<lparr>time_frames_logger := time_frames_logger v @
                    map (\<lambda>tf. LogError (''Disabled '' @ tf_value tf @ '' time frame for '' @
                                         strategy_name))
                      (filter (\<lambda>tf. tf \<notin> set strategy_enabled) config_time_frames),
                 update_calls := update_calls v @
                    (if set strategy_enabled = set config_time_frames then []
                     else [(strategy_name, strategy_enabled)])\<rparr>)"
    unfolding Let_def b c using a patch_strategy_flagged [OF flag] by simp
next
  fix strategies' v'
  assume "time_frames_loop list_of_set limit strategies (initial_time_frames_vars logger) =
          (strategies', v')"
  from time_frames_loop_subset [OF assms this]
  show "\<forall>strategy\<in>set strategies'.
           set (snd strategy) \<subseteq> set (all_enabled_time_frames v')"
    by blast
qed

theorem time_frames_selection_of_strategy_witness:
  "(\<forall>xs::time_frame list. set (remdups xs) = set xs) \<and>
   has_disabled_time_frames example_vars \<and>
   patch_strategy ''S2'' [ONE_HOUR, ONE_DAY, ONE_WEEK] example_vars =
     ((''S2'', [ONE_HOUR, ONE_WEEK]),
      example_vars\<lparr>time_frames_logger := [LogError ''Disabled 1d time frame for S2''],
                    update_calls := [(''S2'', [ONE_HOUR, ONE_WEEK])]\<rparr>) \<and>
   fst (time_frames_loop remdups 3 example_strategies (initial_time_frames_vars [])) =
     [(''S1'', [ONE_MINUTE, ONE_HOUR]), (''S2'', [ONE_HOUR, ONE_WEEK])] \<and>
   list_all (\<lambda>strategy. set (snd strategy) \<subseteq> {ONE_MINUTE, ONE_HOUR, ONE_WEEK})
     (fst (time_frames_loop remdups 3 example_strategies (initial_time_frames_vars [])))"
proof -
  have h1: "\<forall>xs::time_frame list. set (remdups xs) = set xs" by simp
  have h2: "has_disabled_time_frames example_vars" by (simp add: example_vars_def)
  note inst = time_frames_selection_of_strategy [OF h1, of example_vars
      "[ONE_HOUR, ONE_DAY, ONE_WEEK]" "''S2''" 3 example_strategies "[]"]
  from inst h2 have
    "let strategy_enabled =
           filter (\<lambda>tf. tf \<in> set (all_enabled_time_frames example_vars))
             [ONE_HOUR, ONE_DAY, ONE_WEEK]
     in patch_strategy ''S2'' [ONE_HOUR, ONE_DAY, ONE_WEEK] example_vars =
          ((''S2'', strategy_enabled),
           example_vars\<lparr>time_frames_logger := time_frames_logger example_vars @
                map (\<lambda>tf. LogError (''Disabled '' @ tf_value tf @ '' time frame for '' @ ''S2''))
                  (filter (\<lambda>tf. tf \<notin> set strategy_enabled) [ONE_HOUR, ONE_DAY, ONE_WEEK]),
             update_calls := update_calls example_vars @
                (if set strategy_enabled = set [ONE_HOUR, ONE_DAY, ONE_WEEK] then []
                 else [(''S2'', strategy_enabled)])\<rparr>)"
    by (simp add: Let_def)
  moreover have "{TimeFrame ''1h'' 60, TimeFrame ''1w'' 10080} \<noteq>
     {TimeFrame ''1h'' 60, TimeFrame ''1d'' 1440, TimeFrame ''1w'' 10080}"
  proof
    assume eq: "{TimeFrame ''1h'' 60, TimeFrame ''1w'' 10080} =
     {TimeFrame ''1h'' 60, TimeFrame ''1d'' 1440, TimeFrame ''1w'' 10080}"
    have "TimeFrame ''1d'' 1440 \<in> {TimeFrame ''1h'' 60, TimeFrame ''1w'' 10080}"
      by (subst eq) simp
    then show False by simp
  qed
  ultimately have p: "patch_strategy ''S2'' [ONE_HOUR, ONE_DAY, ONE_WEEK] example_vars =
     ((''S2'', [ONE_HOUR, ONE_WEEK]),
      example_vars\<lparr>time_frames_logger := [LogError ''Disabled 1d time frame for S2''],
                    update_calls := [(''S2'', [ONE_HOUR, ONE_WEEK])]\<rparr>)"
    by (simp add: Let_def example_vars_def time_frame_examples)
  from inst example_strategies_loop have
    s: "\<forall>strategy\<in>set (fst (time_frames_loop remdups 3 example_strategies
                             (initial_time_frames_vars []))).
      set (snd strategy) \<subseteq> {ONE_MINUTE, ONE_HOUR, ONE_WEEK}"
    by simp
  then have "list_all (\<lambda>strategy. set (snd strategy) \<subseteq> {ONE_MINUTE, ONE_HOUR, ONE_WEEK})
     (fst (time_frames_loop remdups 3 example_strategies (initial_time_frames_vars [])))"
    by (simp only: list_all_iff)
  with h1 h2 p example_strategies_loop show ?thesis by simp
qed

subsection \<open>The symbol limiter: pairs before a wildcard\<close>

lemma scan_symbols_before_wildcard:
  assumes "is_wildcard wildcard" and "\<forall>s\<in>set pre. \<not> is_wildcard s"
  shows "scan_symbols limit currency (pre @ wildcard # post) data updated v =
     (data\<lparr>currency_enabled := Some False\<rparr>,
      updated @ take (nat (limit - int (length (enabled_symbols v)))) pre,
      v\<lparr>enabled_symbols :=
           enabled_symbols v @ take (nat (limit - int (length (enabled_symbols v)))) pre,
        has_disabled_symbols := True,
        message := ''Disabled wildcard symbol for '' @ currency @ ''. '',
        symbols_logger := symbols_logger v @
           map (\<lambda>s. LogError (''Disabled '' @ s @ '' trading pair from '' @ currency))
             (drop (nat (limit - int (length (enabled_symbols v)))) pre)\<rparr>)"
  using assms(2)
proof (induction pre arbitrary: updated v)
  case Nil
  with assms(1) show ?case by simp
next
  case (Cons s pre)
  then have nw: "\<not> is_wildcard s" and rest: "\<forall>s\<in>set pre. \<not> is_wildcard s" by simp_all
  show ?case
  proof (cases "int (length (enabled_symbols v)) < limit")
    case True
    then obtain k where k: "nat (limit - int (length (enabled_symbols v))) = Suc k"
      "nat (limit - int (length (enabled_symbols v @ [s]))) = k"
      by (cases "nat (limit - int (length (enabled_symbols v)))") auto
    from nw True k Cons.IH [OF rest, of "updated @ [s]" "v\<lparr>enabled_symbols := enabled_symbols v @ [s]\<rparr>"]
    show ?thesis by simp
  next
    case False
    then have k: "nat (limit - int (length (enabled_symbols v))) = 0" by simp
    from nw False k
      Cons.IH [OF rest, of updated "v\<lparr>has_disabled_symbols := True,
             symbols_logger := symbols_logger v @
               [LogError (''Disabled '' @ s @ '' trading pair from '' @ currency)]\<rparr>"]
    show ?thesis by simp
  qed
qed

lemma scan_symbols_extends:
  "scan_symbols limit currency symbols data updated v = (data', updated', v') \<Longrightarrow>
   (\<exists>new. enabled_symbols v' = enabled_symbols v @ new) \<and>
   (has_disabled_symbols v \<longrightarrow> has_disabled_symbols v')"
  by (induction limit currency symbols data updated v arbitrary: data' updated' v'
        rule: scan_symbols.induct)
     (fastforce split: if_splits)+

lemma currencies_loop_extends:
  "currencies_loop limit items v = (err, items', v') \<Longrightarrow>
   (\<exists>new. enabled_symbols v' = enabled_symbols v @ new) \<and>
   (has_disabled_symbols v \<longrightarrow> has_disabled_symbols v')"
proof (induction items arbitrary: v err items' v')
  case Nil
  then show ?case by simp
next
  case (Cons item items)
  obtain currency data where item: "item = (currency, data)" by (cases item)
  show ?case
  proof (cases "get_enabled (currency_enabled data)")
    case False
    with Cons.prems item Cons.IH show ?thesis
      by (auto split: prod.splits)
  next
    case en: True
    show ?thesis
    proof (cases "int (length (enabled_symbols v)) \<ge> limit")
      case True
      with Cons.prems item en obtain rest' where
        "currencies_loop limit items
                   (v\<lparr>symbols_logger := symbols_logger v @
                        [LogError (''Disabled all '' @ currency @ '' trading pairs'')],
                      has_disabled_symbols := True\<rparr>) = (err, rest', v')"
        by (auto split: prod.splits)
      from Cons.IH [OF this] show ?thesis by simp
    next
      case False
      show ?thesis
      proof (cases "pairs data")
        case None
        with Cons.prems item en False show ?thesis by auto
      next
        case (Some symbols)
        obtain data1 updated v1 where
          s: "scan_symbols limit currency symbols data [] v = (data1, updated, v1)"
          by (cases "scan_symbols limit currency symbols data [] v") auto
        from Cons.prems item en False Some s obtain rest' where
          r: "currencies_loop limit items v1 = (err, rest', v')"
          by (auto split: prod.splits)
        from scan_symbols_extends [OF s] Cons.IH [OF r] show ?thesis by auto
      qed
    qed
  qed
qed

lemma currencies_loop_append:
  "currencies_loop limit (xs @ ys) v =
     (case currencies_loop limit xs v of
        (None, xs', v1) \<Rightarrow>
          (case currencies_loop limit ys v1 of (err, ys', v2) \<Rightarrow> (err, xs' @ ys', v2))
      | (Some e, xs', v1) \<Rightarrow> (Some e, xs' @ ys, v1))"
proof (induction xs arbitrary: v)
  case Nil
  then show ?case by (simp split: prod.splits)
next
  case (Cons item xs)
  obtain currency data where item: "item = (currency, data)" by (cases item)
  show ?case
    unfolding item
    by (simp add: Cons.IH split: prod.splits option.splits)
qed

text \<open>
  Claim C10 as it is written fails: with a ceiling of 1, the pair BTC/EUR is scanned
  before the wildcard, but it is neither appended to the accepted symbols (the message
  lists BTC/USD only) nor kept in the currency's pair list.
\<close>

theorem pairs_before_wildcard_counterexample:
  "apply_symbols_limits
     \<lparr>exchanges = None,
      crypto_currencies = Some
        [(''BTC'', \<lparr>currency_enabled = None,
                    pairs = Some [''BTC/USD'', ''BTC/EUR'', ''*'']\<rparr>)]\<rparr> [] 1 =
   (Inr (''Disabled wildcard symbol for BTC. '' @
         ''Reached maximum allowed simultaneous trading pairs for this plan, maximum is 1. '' @
         ''Your OctoBot will trade following pairs: BTC/USD.''),
    \<lparr>exchanges = None,
     crypto_currencies = Some
       [(''BTC'', \<lparr>currency_enabled = Some False, pairs = Some [''BTC/USD'']\<rparr>)]\<rparr>,
    [LogError ''Disabled BTC/EUR trading pair from BTC''])"
  by (simp add: apply_symbols_limits_def symbols_message_def is_wildcard_def
        CONFIG_SYMBOLS_WILDCARD_def get_enabled_def)

text \<open>
  Claim C10, amended. In the symbol limiter, for an enabled currency that is reached
  while the accepted symbols are fewer than the ceiling and whose pair list has
  non-wildcard pairs before a wildcard token: the pairs before the wildcard that fit
  the remaining capacity (the first \<open>limit - |enabled_symbols|\<close> of them) are appended
  to the accepted symbols, so that the currencies after it start from that longer list;
  they are the pair list the currency is left with; the currency ends with its enabled
  flag false; and when the limiter returns, its message lists the accepted symbols,
  these pairs among them. The pairs before the wildcard beyond the capacity are dropped.
\<close>

theorem pairs_before_wildcard_use_capacity:
  assumes "crypto_currencies dict_config = Some (before @ (currency, data) # after)"
    and "currencies_loop limit before (initial_symbols_vars logger) = (None, before', v)"
    and "get_enabled (currency_enabled data)"
    and "int (length (enabled_symbols v)) < limit"
    and "pairs data = Some (pre @ wildcard # post)"
    and "is_wildcard wildcard"
    and "\<forall>s\<in>set pre. \<not> is_wildcard s"
  shows
    "\<exists>err after' v1 v2.
       enabled_symbols v1 =
         enabled_symbols v @ take (nat (limit - int (length (enabled_symbols v)))) pre \<and>
       currencies_loop limit after v1 = (err, after', v2) \<and>
       crypto_currencies (fst (snd (apply_symbols_limits dict_config logger limit))) =
         Some (before' @
               (currency,
                data\<lparr>currency_enabled := Some False,
                     pairs := Some (take (nat (limit - int (length (enabled_symbols v)))) pre)\<rparr>)
               # after') \<and>
       (\<forall>msg. fst (apply_symbols_limits dict_config logger limit) = Inr msg \<longrightarrow>
          (\<exists>note rest.
             msg = symbols_message note limit
                     (enabled_symbols v @
                      take (nat (limit - int (length (enabled_symbols v)))) pre @ rest)))"
proof -
  let ?kept = "take (nat (limit - int (length (enabled_symbols v)))) pre"
  let ?v1 = "v\<lparr>enabled_symbols := enabled_symbols v @ ?kept,
        has_disabled_symbols := True,
        message := ''Disabled wildcard symbol for '' @ currency @ ''. '',
        symbols_logger := symbols_logger v @
           map (\<lambda>s. LogError (''Disabled '' @ s @ '' trading pair from '' @ currency))
             (drop (nat (limit - int (length (enabled_symbols v)))) pre)\<rparr>"
  obtain err after' v2 where
    rest: "currencies_loop limit after ?v1 = (err, after', v2)"
    by (cases "currencies_loop limit after ?v1") auto
  have step: "currencies_loop limit ((currency, data) # after) v =
     (err, (currency, data\<lparr>currency_enabled := Some False, pairs := Some ?kept\<rparr>) # after', v2)"
    using assms(3,4,5) scan_symbols_before_wildcard [OF assms(6,7), of limit currency post data "[]" v]
      rest
    by simp
  have loop: "currencies_loop limit (before @ (currency, data) # after)
                (initial_symbols_vars logger) =
     (err, before' @ (currency, data\<lparr>currency_enabled := Some False, pairs := Some ?kept\<rparr>)
             # after', v2)"
    by (simp only: currencies_loop_append assms(2) step prod.case option.case)
  from currencies_loop_extends [OF rest] obtain rest' where
    ext: "enabled_symbols v2 = enabled_symbols v @ ?kept @ rest'"
    and flag: "has_disabled_symbols v2"
    by auto
  have cfg: "crypto_currencies (fst (snd (apply_symbols_limits dict_config logger limit))) =
         Some (before' @
               (currency, data\<lparr>currency_enabled := Some False, pairs := Some ?kept\<rparr>) # after')"
    using assms(1) loop
    by (simp add: apply_symbols_limits_def initial_symbols_vars_def)
  have msg: "\<forall>msg. fst (apply_symbols_limits dict_config logger limit) = Inr msg \<longrightarrow>
          (\<exists>note rest. msg = symbols_message note limit (enabled_symbols v @ ?kept @ rest))"
    using assms(1) loop flag ext
    by (auto simp: apply_symbols_limits_def initial_symbols_vars_def split: option.splits)
  have "enabled_symbols ?v1 = enabled_symbols v @ ?kept" by simp
  with rest cfg msg show ?thesis by blast
qed

theorem pairs_before_wildcard_use_capacity_witness:
  "crypto_currencies example_wildcard_config =
     Some ([example_LTC] @ (''BTC'', example_BTC) # [example_ETH]) \<and>
   currencies_loop 3 [example_LTC] (initial_symbols_vars []) =
     (None, [example_LTC], (initial_symbols_vars [])\<lparr>enabled_symbols := [''LTC/USD'']\<rparr>) \<and>
   get_enabled (currency_enabled example_BTC) \<and>
   pairs example_BTC = Some ([''BTC/USD'', ''BTC/EUR''] @ ''*'' # []) \<and>
   is_wildcard ''*'' \<and>
   list_all (\<lambda>s. \<not> is_wildcard s) [''BTC/USD'', ''BTC/EUR''] \<and>
   (\<exists>after'.
      crypto_currencies (fst (snd (apply_symbols_limits example_wildcard_config [] 3))) =
        Some (example_LTC #
              (''BTC'', \<lparr>currency_enabled = Some False,
                         pairs = Some [''BTC/USD'', ''BTC/EUR'']\<rparr>) # after')) \<and>
   (\<exists>note rest.
      fst (apply_symbols_limits example_wildcard_config [] 3) =
        Inr (symbols_message note 3 ([''LTC/USD'', ''BTC/USD'', ''BTC/EUR''] @ rest)))"
proof -
  let ?v = "(initial_symbols_vars [])\<lparr>enabled_symbols := [''LTC/USD'']\<rparr>"
  have h1: "crypto_currencies example_wildcard_config =
     Some ([example_LTC] @ (''BTC'', example_BTC) # [example_ETH])"
    by (simp add: example_wildcard_config_def)
  have h2: "currencies_loop 3 [example_LTC] (initial_symbols_vars []) =
     (None, [example_LTC], ?v)"
    by (simp add: example_LTC_def initial_symbols_vars_def get_enabled_def is_wildcard_def
          CONFIG_SYMBOLS_WILDCARD_def)
  have h3: "get_enabled (currency_enabled example_BTC)"
    by (simp add: example_BTC_def get_enabled_def)
  have h4: "int (length (enabled_symbols ?v)) < 3" by simp
  have h5: "pairs example_BTC = Some ([''BTC/USD'', ''BTC/EUR''] @ ''*'' # [])"
    by (simp add: example_BTC_def)
  have h6: "is_wildcard ''*''"
    by (simp add: is_wildcard_def CONFIG_SYMBOLS_WILDCARD_def)
  have h7: "\<forall>s\<in>set [''BTC/USD'', ''BTC/EUR'']. \<not> is_wildcard s"
    by (simp add: is_wildcard_def CONFIG_SYMBOLS_WILDCARD_def)
  have kept: "take (nat (3 - int (length (enabled_symbols ?v)))) [''BTC/USD'', ''BTC/EUR''] =
     [''BTC/USD'', ''BTC/EUR'']"
    by simp
  have data: "example_BTC\<lparr>currency_enabled := Some False,
                 pairs := Some [''BTC/USD'', ''BTC/EUR'']\<rparr> =
     \<lparr>currency_enabled = Some False, pairs = Some [''BTC/USD'', ''BTC/EUR'']\<rparr>"
    by (simp add: example_BTC_def)
  have syms: "enabled_symbols ?v = [''LTC/USD'']" by simp
  have ret: "\<exists>msg. fst (apply_symbols_limits example_wildcard_config [] 3) = Inr msg"
    by (simp add: apply_symbols_limits_def example_wildcard_config_def example_LTC_def
          example_BTC_def example_ETH_def get_enabled_def is_wildcard_def
          CONFIG_SYMBOLS_WILDCARD_def)
  from pairs_before_wildcard_use_capacity [OF h1 h2 h3 h4 h5 h6 h7]
  have "(\<exists>after'.
      crypto_currencies (fst (snd (apply_symbols_limits example_wildcard_config [] 3))) =
        Some (example_LTC #
              (''BTC'', \<lparr>currency_enabled = Some False,
                         pairs = Some [''BTC/USD'', ''BTC/EUR'']\<rparr>) # after')) \<and>
   (\<forall>msg. fst (apply_symbols_limits example_wildcard_config [] 3) = Inr msg \<longrightarrow>
      (\<exists>note rest.
         msg = symbols_message note 3 ([''LTC/USD'', ''BTC/USD'', ''BTC/EUR''] @ rest)))"
    unfolding kept data syms by auto
  with ret have "(\<exists>after'.
      crypto_currencies (fst (snd (apply_symbols_limits example_wildcard_config [] 3))) =
        Some (example_LTC #
              (''BTC'', \<lparr>currency_enabled = Some False,
                         pairs = Some [''BTC/USD'', ''BTC/EUR'']\<rparr>) # after')) \<and>
   (\<exists>note rest.
      fst (apply_symbols_limits example_wildcard_config [] 3) =
        Inr (symbols_message note 3 ([''LTC/USD'', ''BTC/USD'', ''BTC/EUR''] @ rest)))"
    by metis
  moreover from h7 have "list_all (\<lambda>s. \<not> is_wildcard s) [''BTC/USD'', ''BTC/EUR'']"
    by (simp only: list_all_iff)
  ultimately show ?thesis using h1 h2 h3 h5 h6 by blast
qed

subsection \<open>The orchestrator: a failing limiter ends the pass\<close>

lemma example_exchanges_stage:
  "exchanges_stage example_constants ([], example_failing_configuration, []) =
     (None,
      [''Reached maximum allowed simultaneous exchanges for this plan, maximum is 1. '' @
       ''Your OctoBot will trade on the following exchanges: A''],
      example_failing_configuration\<lparr>config :=
        \<lparr>exchanges = Some
           [(''A'', \<lparr>exchange_enabled = Some True, exchange_type = None\<rparr>),
            (''B'', \<lparr>exchange_enabled = Some False, exchange_type = Some ''future''\<rparr>),
            (''C'', \<lparr>exchange_enabled = Some False, exchange_type = None\<rparr>)],
         crypto_currencies = Some [(''BTC'', \<lparr>currency_enabled = None, pairs = None\<rparr>)]\<rparr>\<rparr>,
      [LogError ''Disabled B'', LogError ''Disabled C''])"
  by (simp add: exchanges_stage_def example_constants_def example_failing_configuration_def
        apply_exchanges_limits_def example_exchanges_def get_enabled_def exchanges_message_def)

lemma example_time_frames_alone:
  "apply_time_frames_limits remdups example_failing_configuration [] 3 =
     (Inr (''Reached maximum allowed simultaneous time frames for this plan, maximum is 3. '' @
           ''Your OctoBot will trade using following time frames: 1m, 1h, 1w.''),
      example_failing_configuration\<lparr>tentacles_setup_config := Some
        [(''S1'', [ONE_MINUTE, ONE_HOUR]), (''S2'', [ONE_HOUR, ONE_WEEK])]\<rparr>,
      [LogError ''Disabled 1d time frame for S2''])"
  by (simp add: apply_time_frames_limits_def get_tentacles_setup_config_def
        example_failing_configuration_def example_strategies_loop time_frames_message_def
        time_frame_examples)

lemma apply_exchanges_limits_currencies:
  "crypto_currencies (fst (snd (apply_exchanges_limits dict_config logger limit))) =
   crypto_currencies dict_config"
  by (simp add: apply_exchanges_limits_def Let_def split: option.splits prod.splits)

lemma apply_symbols_limits_exchanges:
  "exchanges (fst (snd (apply_symbols_limits dict_config logger limit))) = exchanges dict_config"
  by (simp add: apply_symbols_limits_def split: option.splits prod.splits)

lemma exchanges_stage_tentacles:
  "exchanges_stage c (msgs, configuration, logger) = (err, msgs', configuration', logger') \<Longrightarrow>
   tentacles_setup_config configuration' = tentacles_setup_config configuration"
  by (auto simp: exchanges_stage_def split: if_splits prod.splits sum.splits)

text \<open>
  Claim C1 as it is written fails: here the symbol limiter raises KeyError, and the
  pass ends there. The time frame limiter, which on this configuration would disable
  a time frame of S2 and return a message, is not run: the strategies are as they
  were and the only message is the exchange limiter's.
\<close>

theorem failure_blocks_later_limiters_counterexample:
  "apply_config_limits remdups example_constants example_failing_configuration =
     ([''Reached maximum allowed simultaneous exchanges for this plan, maximum is 1. '' @
       ''Your OctoBot will trade on the following exchanges: A''],
      \<lparr>config =
         \<lparr>exchanges = Some
            [(''A'', \<lparr>exchange_enabled = Some True, exchange_type = None\<rparr>),
             (''B'', \<lparr>exchange_enabled = Some False, exchange_type = Some ''future''\<rparr>),
             (''C'', \<lparr>exchange_enabled = Some False, exchange_type = None\<rparr>)],
          crypto_currencies = Some [(''BTC'', \<lparr>currency_enabled = None, pairs = None\<rparr>)]\<rparr>,
       tentacles_setup_config = Some
         [(''S1'', [ONE_MINUTE, ONE_HOUR]), (''S2'', [ONE_HOUR, ONE_DAY, ONE_WEEK])]\<rparr>,
      [LogError ''Disabled B'', LogError ''Disabled C'', LogException (KeyError ''pairs''),
       LogError (''Reached maximum allowed simultaneous exchanges for this plan, maximum is 1. '' @
                 ''Your OctoBot will trade on the following exchanges: A'')]) \<and>
   apply_time_frames_limits remdups example_failing_configuration [] 3 =
     (Inr (''Reached maximum allowed simultaneous time frames for this plan, maximum is 3. '' @
           ''Your OctoBot will trade using following time frames: 1m, 1h, 1w.''),
      example_failing_configuration\<lparr>tentacles_setup_config := Some
        [(''S1'', [ONE_MINUTE, ONE_HOUR]), (''S2'', [ONE_HOUR, ONE_WEEK])]\<rparr>,
      [LogError ''Disabled 1d time frame for S2''])"
proof -
  have "symbols_stage example_constants
          (snd (exchanges_stage example_constants ([], example_failing_configuration, []))) =
        (Some (KeyError ''pairs''),
         snd (exchanges_stage example_constants ([], example_failing_configuration, [])))"
    unfolding example_exchanges_stage
    by (simp add: symbols_stage_def example_constants_def example_failing_configuration_def
          apply_symbols_limits_def get_enabled_def CONFIG_CRYPTO_PAIRS_def)
  then have "try_block remdups example_constants ([], example_failing_configuration, []) =
        (Some (KeyError ''pairs''),
         snd (exchanges_stage example_constants ([], example_failing_configuration, [])))"
    by (simp add: try_block_def example_exchanges_stage)
  then have a: "apply_config_limits remdups example_constants example_failing_configuration =
     ([''Reached maximum allowed simultaneous exchanges for this plan, maximum is 1. '' @
       ''Your OctoBot will trade on the following exchanges: A''],
      example_failing_configuration\<lparr>config :=
        \<lparr>exchanges = Some
           [(''A'', \<lparr>exchange_enabled = Some True, exchange_type = None\<rparr>),
            (''B'', \<lparr>exchange_enabled = Some False, exchange_type = Some ''future''\<rparr>),
            (''C'', \<lparr>exchange_enabled = Some False, exchange_type = None\<rparr>)],
         crypto_currencies = Some [(''BTC'', \<lparr>currency_enabled = None, pairs = None\<rparr>)]\<rparr>\<rparr>,
      [LogError ''Disabled B'', LogError ''Disabled C'', LogException (KeyError ''pairs''),
       LogError (''Reached maximum allowed simultaneous exchanges for this plan, maximum is 1. '' @
                 ''Your OctoBot will trade on the following exchanges: A'')])"
    unfolding example_exchanges_stage by (simp add: apply_config_limits_def)
  have b: "example_failing_configuration\<lparr>config :=
        \<lparr>exchanges = Some
           [(''A'', \<lparr>exchange_enabled = Some True, exchange_type = None\<rparr>),
            (''B'', \<lparr>exchange_enabled = Some False, exchange_type = Some ''future''\<rparr>),
            (''C'', \<lparr>exchange_enabled = Some False, exchange_type = None\<rparr>)],
         crypto_currencies = Some [(''BTC'', \<lparr>currency_enabled = None, pairs = None\<rparr>)]\<rparr>\<rparr> =
      \<lparr>config =
         \<lparr>exchanges = Some
            [(''A'', \<lparr>exchange_enabled = Some True, exchange_type = None\<rparr>),
             (''B'', \<lparr>exchange_enabled = Some False, exchange_type = Some ''future''\<rparr>),
             (''C'', \<lparr>exchange_enabled = Some False, exchange_type = None\<rparr>)],
          crypto_currencies = Some [(''BTC'', \<lparr>currency_enabled = None, pairs = None\<rparr>)]\<rparr>,
       tentacles_setup_config = Some
         [(''S1'', [ONE_MINUTE, ONE_HOUR]), (''S2'', [ONE_HOUR, ONE_DAY, ONE_WEEK])]\<rparr>"
    by (simp add: example_failing_configuration_def example_strategies_def)
  from a [unfolded b] example_time_frames_alone show ?thesis by (rule conjI)
qed

text \<open>
  Claim C1, amended. When a limiter raises during an enforcement pass, the exception
  is caught and logged and the orchestrator returns the messages collected from the
  limiters that ran before it, with what these limiters and the failing one changed;
  the limiters after it in the sequence (exchanges, then symbols, then time frames)
  are not run in that pass: when the exchange limiter raises no message is returned
  and the currencies and the strategies are as they were, and when the symbol limiter
  raises the strategies are as they were.
\<close>

theorem apply_config_limits_stops_at_failure:
  "(MAX_ALLOWED_EXCHANGES c \<noteq> UNLIMITED_ALLOWED c \<and>
    apply_exchanges_limits (config configuration) [] (MAX_ALLOWED_EXCHANGES c) =
      (Inl e, dict_config', logger') \<longrightarrow>
      apply_config_limits list_of_set c configuration =
        ([], configuration\<lparr>config := dict_config'\<rparr>, logger' @ [LogException e]) \<and>
      crypto_currencies dict_config' = crypto_currencies (config configuration)) \<and>
   (exchanges_stage c ([], configuration, []) = (None, msgs_ex, configuration_ex, logger_ex) \<and>
    MAX_ALLOWED_SYMBOLS c \<noteq> UNLIMITED_ALLOWED c \<and>
    apply_symbols_limits (config configuration_ex) logger_ex (MAX_ALLOWED_SYMBOLS c) =
      (Inl e, dict_config', logger') \<longrightarrow>
      apply_config_limits list_of_set c configuration =
        (msgs_ex, configuration_ex\<lparr>config := dict_config'\<rparr>,
         logger' @ [LogException e] @ map LogError msgs_ex) \<and>
      tentacles_setup_config configuration_ex = tentacles_setup_config configuration) \<and>
   (exchanges_stage c ([], configuration, []) = (None, st_ex) \<and>
    symbols_stage c st_ex = (None, msgs_sym, configuration_sym, logger_sym) \<and>
    MAX_ALLOWED_TIME_FRAMES c \<noteq> UNLIMITED_ALLOWED c \<and>
    apply_time_frames_limits list_of_set configuration_sym logger_sym (MAX_ALLOWED_TIME_FRAMES c) =
      (Inl e, configuration', logger') \<longrightarrow>
      apply_config_limits list_of_set c configuration =
        (msgs_sym, configuration', logger' @ [LogException e] @ map LogError msgs_sym))"
proof (intro conjI impI; elim conjE)
  assume "MAX_ALLOWED_EXCHANGES c \<noteq> UNLIMITED_ALLOWED c"
    and f: "apply_exchanges_limits (config configuration) [] (MAX_ALLOWED_EXCHANGES c) =
      (Inl e, dict_config', logger')"
  then show "apply_config_limits list_of_set c configuration =
        ([], configuration\<lparr>config := dict_config'\<rparr>, logger' @ [LogException e])"
    by (simp add: apply_config_limits_def try_block_def exchanges_stage_def)
  from apply_exchanges_limits_currencies [of "config configuration" "[]" "MAX_ALLOWED_EXCHANGES c"] f
  show "crypto_currencies dict_config' = crypto_currencies (config configuration)"
    by simp
next
  assume s1: "exchanges_stage c ([], configuration, []) = (None, msgs_ex, configuration_ex, logger_ex)"
    and "MAX_ALLOWED_SYMBOLS c \<noteq> UNLIMITED_ALLOWED c"
    and "apply_symbols_limits (config configuration_ex) logger_ex (MAX_ALLOWED_SYMBOLS c) =
      (Inl e, dict_config', logger')"
  then show "apply_config_limits list_of_set c configuration =
        (msgs_ex, configuration_ex\<lparr>config := dict_config'\<rparr>,
         logger' @ [LogException e] @ map LogError msgs_ex)"
    by (simp add: apply_config_limits_def try_block_def symbols_stage_def)
  from exchanges_stage_tentacles [OF s1]
  show "tentacles_setup_config configuration_ex = tentacles_setup_config configuration" .
next
  assume "exchanges_stage c ([], configuration, []) = (None, st_ex)"
    and "symbols_stage c st_ex = (None, msgs_sym, configuration_sym, logger_sym)"
    and "MAX_ALLOWED_TIME_FRAMES c \<noteq> UNLIMITED_ALLOWED c"
    and "apply_time_frames_limits list_of_set configuration_sym logger_sym (MAX_ALLOWED_TIME_FRAMES c) =
      (Inl e, configuration', logger')"
  then show "apply_config_limits list_of_set c configuration =
        (msgs_sym, configuration', logger' @ [LogException e] @ map LogError msgs_sym)"
    by (simp add: apply_config_limits_def try_block_def time_frames_stage_def)
qed

theorem apply_config_limits_stops_at_failure_witness:
  "(apply_exchanges_limits (config example_no_exchanges) [] 1 =
      (Inl (KeyError ''exchanges''), config example_no_exchanges, []) \<and>
    apply_config_limits remdups example_constants example_no_exchanges =
      ([], example_no_exchanges, [LogException (KeyError ''exchanges'')])) \<and>
   (apply_symbols_limits
      (config (fst (snd (snd (exchanges_stage example_constants
         ([], example_failing_configuration, []))))))
      [LogError ''Disabled B'', LogError ''Disabled C''] 2 =
      (Inl (KeyError ''pairs''),
       config (fst (snd (snd (exchanges_stage example_constants
         ([], example_failing_configuration, []))))),
       [LogError ''Disabled B'', LogError ''Disabled C'']) \<and>
    fst (apply_config_limits remdups example_constants example_failing_configuration) =
      [''Reached maximum allowed simultaneous exchanges for this plan, maximum is 1. '' @
       ''Your OctoBot will trade on the following exchanges: A''] \<and>
    tentacles_setup_config
      (fst (snd (apply_config_limits remdups example_constants example_failing_configuration))) =
      tentacles_setup_config example_failing_configuration) \<and>
   (apply_time_frames_limits remdups example_no_setup [] 3 =
      (Inl (CollaboratorError ''get_tentacles_setup_config''), example_no_setup, []) \<and>
    apply_config_limits remdups example_time_frames_only example_no_setup =
      ([], example_no_setup, [LogException (CollaboratorError ''get_tentacles_setup_config'')]))"
proof (intro conjI)
  have c1: "MAX_ALLOWED_EXCHANGES example_constants = 1"
    "MAX_ALLOWED_SYMBOLS example_constants = 2"
    "MAX_ALLOWED_EXCHANGES example_constants \<noteq> UNLIMITED_ALLOWED example_constants"
    "MAX_ALLOWED_SYMBOLS example_constants \<noteq> UNLIMITED_ALLOWED example_constants"
    by (simp_all add: example_constants_def)
  show fa: "apply_exchanges_limits (config example_no_exchanges) [] 1 =
      (Inl (KeyError ''exchanges''), config example_no_exchanges, [])"
    by (simp add: apply_exchanges_limits_def example_no_exchanges_def CONFIG_EXCHANGES_def)
  have same: "example_no_exchanges\<lparr>config := config example_no_exchanges\<rparr> = example_no_exchanges"
    by simp
  from apply_config_limits_stops_at_failure
         [where c = example_constants and configuration = example_no_exchanges
            and e = "KeyError ''exchanges''" and dict_config' = "config example_no_exchanges"
            and logger' = "[]" and list_of_set = remdups]
       c1 fa
  show "apply_config_limits remdups example_constants example_no_exchanges =
      ([], example_no_exchanges, [LogException (KeyError ''exchanges'')])"
    by (simp add: same)
next
  let ?st = "exchanges_stage example_constants ([], example_failing_configuration, [])"
  have c1: "MAX_ALLOWED_SYMBOLS example_constants = 2"
    "MAX_ALLOWED_SYMBOLS example_constants \<noteq> UNLIMITED_ALLOWED example_constants"
    by (simp_all add: example_constants_def)
  show fb: "apply_symbols_limits (config (fst (snd (snd ?st))))
      [LogError ''Disabled B'', LogError ''Disabled C''] 2 =
      (Inl (KeyError ''pairs''), config (fst (snd (snd ?st))),
       [LogError ''Disabled B'', LogError ''Disabled C''])"
    unfolding example_exchanges_stage
    by (simp add: apply_symbols_limits_def example_failing_configuration_def get_enabled_def
          CONFIG_CRYPTO_PAIRS_def)
  have st: "?st = (None, fst (snd ?st), fst (snd (snd ?st)),
                   [LogError ''Disabled B'', LogError ''Disabled C''])"
    unfolding example_exchanges_stage by simp
  have m: "fst (snd ?st) =
      [''Reached maximum allowed simultaneous exchanges for this plan, maximum is 1. '' @
       ''Your OctoBot will trade on the following exchanges: A'']"
    unfolding example_exchanges_stage by simp
  from apply_config_limits_stops_at_failure
         [where c = example_constants and configuration = example_failing_configuration
            and e = "KeyError ''pairs''" and list_of_set = remdups
            and msgs_ex = "fst (snd ?st)" and configuration_ex = "fst (snd (snd ?st))"
            and logger_ex = "[LogError ''Disabled B'', LogError ''Disabled C'']"
            and dict_config' = "config (fst (snd (snd ?st)))"
            and logger' = "[LogError ''Disabled B'', LogError ''Disabled C'']"]
       st c1 fb
  have r: "apply_config_limits remdups example_constants example_failing_configuration =
        (fst (snd ?st), (fst (snd (snd ?st)))\<lparr>config := config (fst (snd (snd ?st)))\<rparr>,
         [LogError ''Disabled B'', LogError ''Disabled C''] @ [LogException (KeyError ''pairs'')] @
         map LogError (fst (snd ?st)))"
    and t: "tentacles_setup_config (fst (snd (snd ?st))) =
            tentacles_setup_config example_failing_configuration"
    by simp_all
  from r m
  show "fst (apply_config_limits remdups example_constants example_failing_configuration) =
      [''Reached maximum allowed simultaneous exchanges for this plan, maximum is 1. '' @
       ''Your OctoBot will trade on the following exchanges: A'']"
    by simp
  from r t
  show "tentacles_setup_config
      (fst (snd (apply_config_limits remdups example_constants example_failing_configuration))) =
      tentacles_setup_config example_failing_configuration"
    by simp
next
  have c3: "MAX_ALLOWED_TIME_FRAMES example_time_frames_only = 3"
    "MAX_ALLOWED_TIME_FRAMES example_time_frames_only \<noteq>
     UNLIMITED_ALLOWED example_time_frames_only"
    by (simp_all add: example_time_frames_only_def)
  have s1: "exchanges_stage example_time_frames_only ([], example_no_setup, []) =
            (None, [], example_no_setup, [])"
    by (simp add: exchanges_stage_def example_time_frames_only_def)
  have s2: "symbols_stage example_time_frames_only ([], example_no_setup, []) =
            (None, [], example_no_setup, [])"
    by (simp add: symbols_stage_def example_time_frames_only_def)
  show fc: "apply_time_frames_limits remdups example_no_setup [] 3 =
      (Inl (CollaboratorError ''get_tentacles_setup_config''), example_no_setup, [])"
    by (simp add: apply_time_frames_limits_def get_tentacles_setup_config_def
          example_no_setup_def)
  from apply_config_limits_stops_at_failure
         [where c = example_time_frames_only and configuration = example_no_setup
            and e = "CollaboratorError ''get_tentacles_setup_config''" and list_of_set = remdups
            and st_ex = "([], example_no_setup, [])" and msgs_sym = "[]"
            and configuration_sym = example_no_setup and logger_sym = "[]"
            and configuration' = example_no_setup and logger' = "[]"]
       s1 s2 c3 fc
  show "apply_config_limits remdups example_time_frames_only example_no_setup =
      ([], example_no_setup, [LogException (CollaboratorError ''get_tentacles_setup_config'')])"
    by simp
qed

subsection \<open>The time frame limiter at the ceiling\<close>

lemmas time_frames_evaluation =
  apply_time_frames_limits_def get_tentacles_setup_config_def initial_time_frames_vars_def
  combine_time_frames_def patch_strategy_def sort_time_frames_def slice_from_def Let_def
  time_frames_message_def time_frame_examples card_insert_if

text \<open>
  Claim C2 fails on the code. With a ceiling of 1 and one strategy that requests 1m, 1h
  and 1d, the slice \<^verbatim>\<open>missing_tf[limit - len(all_enabled_time_frames):]\<close> drops the first
  time frame and admits the other two: the aggregate has two time frames, and the
  message that names the maximum 1 lists both.
\<close>

theorem time_frames_aggregate_over_ceiling:
  "apply_time_frames_limits list_of_set example_three_time_frames [] 1 =
     (Inr (''Reached maximum allowed simultaneous time frames for this plan, maximum is 1. '' @
           ''Your OctoBot will trade using following time frames: 1h, 1d.''),
      example_three_time_frames\<lparr>tentacles_setup_config :=
         Some [(''S1'', [ONE_HOUR, ONE_DAY])]\<rparr>,
      [LogError ''Disabled 1m time frame for S1'']) \<and>
   all_enabled_time_frames
     (snd (time_frames_loop list_of_set 1 [(''S1'', [ONE_MINUTE, ONE_HOUR, ONE_DAY])]
             (initial_time_frames_vars []))) = [ONE_HOUR, ONE_DAY]"
  by (simp add: example_three_time_frames_def time_frames_evaluation)

text \<open>
  Claim C3 fails on the code. With a ceiling of 2 and the aggregate 1m, a strategy that
  requests 1h, 1d and 1w has the missing time frames 1h, 1d, 1w and a remaining
  capacity of 1; the slice keeps what follows the first element, so 1d and 1w are both
  admitted, not the last one alone. With a ceiling of 3 the capacity is 2 and the slice
  admits 1w alone.
\<close>

theorem time_frames_admitted_not_last:
  "all_enabled_time_frames
     (combine_time_frames list_of_set 2 [ONE_HOUR, ONE_DAY, ONE_WEEK] example_one_minute_vars) =
     [ONE_MINUTE, ONE_DAY, ONE_WEEK] \<and>
   all_enabled_time_frames
     (combine_time_frames list_of_set 3 [ONE_HOUR, ONE_DAY, ONE_WEEK] example_one_minute_vars) =
     [ONE_MINUTE, ONE_WEEK]"
  by (simp add: example_one_minute_vars_def time_frames_evaluation)

text \<open>
  Claim C4 fails on the code. With a ceiling of 2, the first strategy's two time frames
  reach the ceiling exactly, and the aggregate becomes \<^verbatim>\<open>list(combined_time_frames)\<close>
  without being sorted; here the set is listed with 1h before 1m. The second strategy
  sets the flag and adds nothing, so the message lists 1h before 1m.
\<close>

theorem time_frames_aggregate_not_sorted:
  "apply_time_frames_limits remdups
     \<lparr>config = \<lparr>exchanges = Some [], crypto_currencies = Some []\<rparr>,
      tentacles_setup_config = Some example_unsorted_strategies\<rparr> [] 2 =
     (Inr (''Reached maximum allowed simultaneous time frames for this plan, maximum is 2. '' @
           ''Your OctoBot will trade using following time frames: 1h, 1m.''),
      \<lparr>config = \<lparr>exchanges = Some [], crypto_currencies = Some []\<rparr>,
       tentacles_setup_config = Some
         [(''S1'', [ONE_HOUR, ONE_MINUTE]), (''S2'', [ONE_MINUTE, ONE_HOUR])]\<rparr>,
      [LogError ''Disabled 1d time frame for S2'']) \<and>
   all_enabled_time_frames
     (combine_time_frames remdups 2 [ONE_HOUR, ONE_MINUTE] (initial_time_frames_vars [])) =
     [ONE_HOUR, ONE_MINUTE] \<and>
   \<not> sorted (map minutes [ONE_HOUR, ONE_MINUTE])"
  by (simp add: example_unsorted_strategies_def time_frames_evaluation)

text \<open>
  Claim C5 fails on the code. On the configuration of claim C2 the first pass leaves the
  strategy with 1h and 1d, which is still over the ceiling of 1: the second pass
  disables 1h, changes the configuration again and returns a message again.
\<close>

theorem second_pass_not_idle:
  "apply_config_limits list_of_set example_one_time_frame example_three_time_frames =
     ([''Reached maximum allowed simultaneous time frames for this plan, maximum is 1. '' @
       ''Your OctoBot will trade using following time frames: 1h, 1d.''],
      example_three_time_frames\<lparr>tentacles_setup_config :=
         Some [(''S1'', [ONE_HOUR, ONE_DAY])]\<rparr>,
      [LogError ''Disabled 1m time frame for S1'',
       LogError (''Reached maximum allowed simultaneous time frames for this plan, maximum is 1. '' @
                 ''Your OctoBot will trade using following time frames: 1h, 1d.'')]) \<and>
   apply_config_limits list_of_set example_one_time_frame
     (example_three_time_frames\<lparr>tentacles_setup_config :=
         Some [(''S1'', [ONE_HOUR, ONE_DAY])]\<rparr>) =
     ([''Reached maximum allowed simultaneous time frames for this plan, maximum is 1. '' @
       ''Your OctoBot will trade using following time frames: 1d.''],
      example_three_time_frames\<lparr>tentacles_setup_config := Some [(''S1'', [ONE_DAY])]\<rparr>,
      [LogError ''Disabled 1h time frame for S1'',
       LogError (''Reached maximum allowed simultaneous time frames for this plan, maximum is 1. '' @
                 ''Your OctoBot will trade using following time frames: 1d.'')])"
  by (simp add: apply_config_limits_def try_block_def exchanges_stage_def symbols_stage_def
        time_frames_stage_def example_one_time_frame_def example_three_time_frames_def
        time_frames_evaluation)

end
